theory Spec2Isabelle
  imports Complex_Main "HOL-Library.Multiset" "HOL-Library.Sublist"
begin

section \<open>Data model (src/index.tsx, TYPES)\<close>

text \<open>
  JavaScript numbers are modelled exactly: ids as \<open>int\<close>, amounts as \<open>rat\<close>. A
  number that may be \<open>NaN\<close> (the result of a parse, or of a date conversion) is an
  option, with \<open>None\<close> for \<open>NaN\<close>. The one sum on ids, \<open>max + 1\<close> for a new id, is
  modelled with the rounding of doubles (\<open>plusOne\<close>); the rounding of sums of amounts
  and infinities are outside the model.
\<close>

datatype ApprovalStatus = Pending | Approved | Rejected

datatype ChangeOrderStatus =
  Status_PendingApproval | Status_Approved | Status_Rejected | Status_InProgress | Status_Completed

record Approval =
  name :: string
  approvalStatus :: ApprovalStatus
  approvalDate :: "string option"

record ChangeOrder =
  co_id :: int
  title :: string
  description :: string
  reason :: string
  status :: ChangeOrderStatus
  dateRequested :: string
  costImpactEquipment :: rat
  costImpactInstallation :: rat
  costImpactOther :: rat
  otherCostsExplanation :: string
  scheduleImpactDays :: rat
  approvals :: "Approval list"

type_synonym ApproverConfig = "string \<rightharpoonup> string"

record AppSettings =
  projectName :: string
  projectLocation :: string
  projectManager :: string
  approverConfig :: ApproverConfig

datatype View = TableView | FormView

text \<open>
  The state of the \<open>App\<close> component: one field per \<open>useState\<close> cell that the
  handlers below read or write. \<open>alerts\<close> is the log of the messages passed to
  \<open>alert\<close>, oldest first; it is the only channel on which a handler reports an error.
\<close>

record AppState =
  changeOrders :: "ChangeOrder list"
  currentOrder :: "ChangeOrder option"
  view :: View
  isDeleteConfirmOpen :: bool
  isRenumberConfirmOpen :: bool
  selectedOrderIds :: "int set"
  settings :: AppSettings
  alerts :: "string list"

section \<open>Array.prototype.sort\<close>

text \<open>
  \<open>sortCompare\<close> is the comparison that \<open>sort\<close> derives from the function it is
  given: a \<open>NaN\<close> result counts as \<open>0\<close>. \<open>js_sort\<close> is a stable insertion sort
  over it. For a comparison that orders the elements consistently this is the result
  the language fixes. For an inconsistent one (a \<open>NaN\<close> between some elements and
  a strict order between others) the language leaves the order to the implementation;
  \<open>js_sort\<close> is then one such implementation, and only a counterexample evaluates it
  there. The comparisons below are differences of two doubles: the rounded difference
  is negative, zero or positive as the exact one is, and the sort reads nothing else.
\<close>

definition sortCompare :: "('a \<Rightarrow> 'a \<Rightarrow> int option) \<Rightarrow> 'a \<Rightarrow> 'a \<Rightarrow> int" where
  "sortCompare comparefn x y = (case comparefn x y of None \<Rightarrow> 0 | Some v \<Rightarrow> v)"

fun js_insert :: "('a \<Rightarrow> 'a \<Rightarrow> int option) \<Rightarrow> 'a \<Rightarrow> 'a list \<Rightarrow> 'a list" where
  "js_insert comparefn x [] = [x]"
| "js_insert comparefn x (y # ys) =
     (if sortCompare comparefn x y \<le> 0 then x # y # ys
      else y # js_insert comparefn x ys)"

definition js_sort :: "('a \<Rightarrow> 'a \<Rightarrow> int option) \<Rightarrow> 'a list \<Rightarrow> 'a list" where
  "js_sort comparefn xs = foldr (js_insert comparefn) xs []"

section \<open>Strings of the language\<close>

text \<open>\<open>Number.prototype.toString\<close> on an integer: its decimal digits, with a sign.\<close>

fun digitsOf :: "nat \<Rightarrow> string" where
  "digitsOf n =
     (if n < 10 then [char_of (48 + n)]
      else digitsOf (n div 10) @ [char_of (48 + n mod 10)])"

declare digitsOf.simps [simp del]

definition js_toString :: "int \<Rightarrow> string" where
  "js_toString i = (if i < 0 then CHR ''-'' # digitsOf (nat (- i)) else digitsOf (nat i))"

text \<open>\<open>String.prototype.includes\<close>: the argument occurs as a contiguous part.\<close>

definition js_includes :: "string \<Rightarrow> string \<Rightarrow> bool" where
  "js_includes s part = list_ex (\<lambda>t. prefix part t) (suffixes s)"

text \<open>
  The functions of the language that read or rewrite the characters of a string are
  parameters of the model, so that every statement holds of the functions the
  language has, on every string: \<open>parseFloat\<close>, \<open>parseInt\<close> with radix 10,
  \<open>getTime s\<close> for \<open>new Date(s).getTime()\<close>, \<open>String.prototype.trim\<close> (which
  removes every Unicode white space and line terminator at both ends) and
  \<open>String.prototype.toLowerCase\<close>. \<open>None\<close> is \<open>NaN\<close> (no number could be read,
  or the date is invalid).
\<close>

record Builtins =
  parseFloat :: "string \<Rightarrow> rat option"
  parseInt10 :: "string \<Rightarrow> int option"
  getTime :: "string \<Rightarrow> int option"
  trim :: "string \<Rightarrow> string"
  toLowerCase :: "string \<Rightarrow> string"

text \<open>
  \<open>m + 1\<close> in the arithmetic of doubles, for an integer \<open>m \<ge> 0\<close> that is a double.
  Below \<open>2^53\<close> the sum is exact. From \<open>2^53\<close> to \<open>2^54\<close> the doubles are the even
  integers: \<open>m + 1\<close> lies halfway between \<open>m\<close> and \<open>m + 2\<close> and is rounded to the
  one whose half is even. From \<open>2^54\<close> on the doubles are at least 4 apart and the sum
  is rounded back to \<open>m\<close>.
\<close>

definition plusOne :: "int \<Rightarrow> int" where
  "plusOne m =
     (if m < 2 ^ 53 then m + 1
      else if m < 2 ^ 54 \<and> odd (m div 2) then m + 2
      else m)"

section \<open>App.handleSave\<close>

text \<open>The status computed in the first half of \<open>handleSave\<close> (\<open>newStatus\<close>).\<close>

definition newStatus :: "ChangeOrder \<Rightarrow> ChangeOrderStatus" where
  "newStatus orderFromForm =
     (let isRejected = list_ex (\<lambda>app. approvalStatus app = Rejected) (approvals orderFromForm);
          isFullyApproved = (length (approvals orderFromForm) > 0 \<and>
             list_all (\<lambda>app. approvalStatus app = Approved) (approvals orderFromForm))
      in if isRejected then Status_Rejected
         else if isFullyApproved then
           (if status orderFromForm \<noteq> Status_InProgress \<and> status orderFromForm \<noteq> Status_Completed
            then Status_Approved else status orderFromForm)
         else
           (if status orderFromForm \<noteq> Status_InProgress \<and> status orderFromForm \<noteq> Status_Completed
            then Status_PendingApproval else status orderFromForm))"

definition orderToSave :: "ChangeOrder \<Rightarrow> ChangeOrder" where
  "orderToSave orderFromForm = orderFromForm\<lparr>status := newStatus orderFromForm\<rparr>"

text \<open>\<open>Math.max(0, ...changeOrders.map(co => co.id)) + 1\<close>\<close>

definition newCoId :: "ChangeOrder list \<Rightarrow> int" where
  "newCoId orders = plusOne (foldl max 0 (map co_id orders))"

definition byIdDescending :: "ChangeOrder \<Rightarrow> ChangeOrder \<Rightarrow> int option" where
  "byIdDescending a b = Some (co_id b - co_id a)"

definition handleSave :: "AppState \<Rightarrow> ChangeOrder \<Rightarrow> AppState" where
  "handleSave st orderFromForm =
     (let ots = orderToSave orderFromForm;
          orders = changeOrders st;
          orders' = (if co_id ots = 0
                  then js_sort byIdDescending (orders @ [ots\<lparr>co_id := newCoId orders\<rparr>])
                  else map (\<lambda>co. if co_id co = co_id ots then ots else co) orders)
      in st\<lparr>changeOrders := orders', view := TableView, currentOrder := None,
            selectedOrderIds := {}\<rparr>)"

section \<open>App.executeDelete, App.handleRenumber\<close>

definition executeDelete :: "AppState \<Rightarrow> AppState" where
  "executeDelete st =
     st\<lparr>changeOrders := filter (\<lambda>co. co_id co \<notin> selectedOrderIds st) (changeOrders st),
        selectedOrderIds := {}, isDeleteConfirmOpen := False\<rparr>"

text \<open>
  The comparison passed to \<open>sort\<close> is the difference of the two time values, \<open>NaN\<close>
  when either date is invalid.
\<close>

definition byDateRequested :: "Builtins \<Rightarrow> ChangeOrder \<Rightarrow> ChangeOrder \<Rightarrow> int option" where
  "byDateRequested js a b =
     (case (getTime js (dateRequested a), getTime js (dateRequested b)) of
        (Some ta, Some tb) \<Rightarrow> Some (ta - tb)
      | _ \<Rightarrow> None)"

definition sortedOrders :: "Builtins \<Rightarrow> ChangeOrder list \<Rightarrow> ChangeOrder list" where
  "sortedOrders js orders = js_sort (byDateRequested js) orders"

definition renumberedOrders :: "Builtins \<Rightarrow> ChangeOrder list \<Rightarrow> ChangeOrder list" where
  "renumberedOrders js orders =
     map (\<lambda>(index, order). order\<lparr>co_id := int index + 1\<rparr>)
         (enumerate 0 (sortedOrders js orders))"

definition handleRenumber :: "Builtins \<Rightarrow> AppState \<Rightarrow> AppState" where
  "handleRenumber js st =
     (if length (changeOrders st) = 0
      then st\<lparr>alerts := alerts st @ [''No change orders to renumber.''],
              isRenumberConfirmOpen := False\<rparr>
      else st\<lparr>changeOrders := renumberedOrders js (changeOrders st),
              selectedOrderIds := {},
              isRenumberConfirmOpen := False,
              alerts := alerts st @
                [''Successfully renumbered '' @
                 js_toString (int (length (renumberedOrders js (changeOrders st)))) @
                 '' change orders.'']\<rparr>)"

section \<open>App.handleFileImport\<close>

text \<open>
  A parsed JSON document. An object is the list of its members, each key once (a
  repeated key of the text has already been resolved by the parser). \<open>JSON.parse\<close>
  itself is a parameter of the handler: \<open>None\<close> is its \<open>SyntaxError\<close>.
\<close>

datatype json =
  JNull | JBool bool | JNumber rat | JString string | JArray "json list"
  | JObject "(string \<times> json) list"

text \<open>
  \<open>data.key\<close> for a parsed document: \<open>Inl ()\<close> is the \<open>TypeError\<close> of reading a
  property of \<open>null\<close>, \<open>Inr None\<close> is \<open>undefined\<close>. Neither key read by the handler
  is a property of an array, a string, a number or a boolean.
\<close>

fun getProperty :: "json \<Rightarrow> string \<Rightarrow> unit + json option" where
  "getProperty JNull key = Inl ()"
| "getProperty (JObject members) key = Inr (map_of members key)"
| "getProperty _ key = Inr None"

text \<open>\<open>!v\<close> is \<open>\<not> truthy v\<close>.\<close>

fun truthy :: "json option \<Rightarrow> bool" where
  "truthy None = False"
| "truthy (Some JNull) = False"
| "truthy (Some (JBool b)) = b"
| "truthy (Some (JNumber n)) = (n \<noteq> 0)"
| "truthy (Some (JString s)) = (s \<noteq> [])"
| "truthy (Some (JArray xs)) = True"
| "truthy (Some (JObject members)) = True"

fun isArray :: "json option \<Rightarrow> bool" where
  "isArray (Some (JArray xs)) = True"
| "isArray _ = False"

fun arrayItems :: "json option \<Rightarrow> json list" where
  "arrayItems (Some (JArray xs)) = xs"
| "arrayItems _ = []"

text \<open>
  The handler stores the parsed values as they are, under the declared types
  \<open>AppSettings\<close> and \<open>ChangeOrder[]\<close>, without looking inside them. \<open>asSettings\<close> and
  \<open>asOrder\<close> are that reading of a parsed value at the declared type (\<open>None\<close> is
  \<open>undefined\<close>); the handler is modelled for every such reading.
\<close>

record Importer =
  jsonParse :: "string \<Rightarrow> json option"
  asSettings :: "json option \<Rightarrow> AppSettings"
  asOrder :: "json \<Rightarrow> ChangeOrder"

definition importFailed :: "AppState \<Rightarrow> AppState" where
  "importFailed st =
     st\<lparr>alerts := alerts st @ [''Error: The selected file is not a valid project file.'']\<rparr>"

text \<open>\<open>reader.onload\<close>: the \<open>try\<close> block, with each \<open>throw\<close> landing in the \<open>catch\<close>.\<close>

definition onload :: "Importer \<Rightarrow> string \<Rightarrow> AppState \<Rightarrow> AppState" where
  "onload imp fileContent st =
     (case jsonParse imp fileContent of
        None \<Rightarrow> importFailed st
      | Some data \<Rightarrow>
          (case (getProperty data ''settings'', getProperty data ''changeOrders'') of
             (Inr dataSettings, Inr dataChangeOrders) \<Rightarrow>
               if \<not> truthy dataSettings \<or> \<not> isArray dataChangeOrders then importFailed st
               else st\<lparr>settings := asSettings imp dataSettings,
                       changeOrders := map (asOrder imp) (arrayItems dataChangeOrders),
                       currentOrder := None,
                       view := TableView,
                       selectedOrderIds := {},
                       alerts := alerts st @ [''Project imported successfully!'']\<rparr>
           | _ \<Rightarrow> importFailed st))"

datatype FileRead = NoFile | ReadError | Content string

definition handleFileImport :: "Importer \<Rightarrow> FileRead \<Rightarrow> AppState \<Rightarrow> AppState" where
  "handleFileImport imp file st =
     (case file of
        NoFile \<Rightarrow> st
      | ReadError \<Rightarrow> st\<lparr>alerts := alerts st @ [''An error occurred while reading the file.'']\<rparr>
      | Content fileContent \<Rightarrow> onload imp fileContent st)"

section \<open>ChangeOrderTable: the filter and the total\<close>

record Filters =
  filter_id :: string
  filter_title :: string
  filter_status :: string
  filter_dateRequested :: string
  costMin :: string
  costMax :: string
  scheduleMin :: string
  scheduleMax :: string

definition defaultFilters :: Filters where
  "defaultFilters =
     \<lparr>filter_id = [], filter_title = [], filter_status = ''All'', filter_dateRequested = [],
      costMin = [], costMax = [], scheduleMin = [], scheduleMax = []\<rparr>"

fun statusLabel :: "ChangeOrderStatus \<Rightarrow> string" where
  "statusLabel Status_PendingApproval = ''Pending Approval''"
| "statusLabel Status_Approved = ''Approved''"
| "statusLabel Status_Rejected = ''Rejected''"
| "statusLabel Status_InProgress = ''In Progress''"
| "statusLabel Status_Completed = ''Completed''"

definition totalCost :: "ChangeOrder \<Rightarrow> rat" where
  "totalCost co = costImpactEquipment co + costImpactInstallation co + costImpactOther co"

text \<open>The predicate passed to \<open>changeOrders.filter\<close>; a comparison with \<open>NaN\<close> is false.\<close>

definition matchesFilters :: "Builtins \<Rightarrow> Filters \<Rightarrow> ChangeOrder \<Rightarrow> bool" where
  "matchesFilters js filters co =
     (let idMatch = (if filter_id filters \<noteq> []
                     then js_includes (js_toString (co_id co)) (filter_id filters) else True);
          titleMatch = (if filter_title filters \<noteq> []
                        then js_includes (toLowerCase js (title co))
                               (toLowerCase js (filter_title filters))
                        else True);
          statusMatch = (if filter_status filters \<noteq> ''All''
                         then statusLabel (status co) = filter_status filters else True);
          dateMatch = (if filter_dateRequested filters \<noteq> []
                       then (case (getTime js (dateRequested co),
                                   getTime js (filter_dateRequested filters)) of
                               (Some t, Some bound) \<Rightarrow> t \<ge> bound
                             | _ \<Rightarrow> False)
                       else True);
          costMinMatch = (case parseFloat js (costMin filters) of
                            Some bound \<Rightarrow> totalCost co \<ge> bound | None \<Rightarrow> True);
          costMaxMatch = (case parseFloat js (costMax filters) of
                            Some bound \<Rightarrow> totalCost co \<le> bound | None \<Rightarrow> True);
          scheduleMinMatch = (case parseInt10 js (scheduleMin filters) of
                                Some bound \<Rightarrow> scheduleImpactDays co \<ge> of_int bound | None \<Rightarrow> True);
          scheduleMaxMatch = (case parseInt10 js (scheduleMax filters) of
                                Some bound \<Rightarrow> scheduleImpactDays co \<le> of_int bound | None \<Rightarrow> True)
      in idMatch \<and> titleMatch \<and> statusMatch \<and> dateMatch \<and> costMinMatch \<and> costMaxMatch
         \<and> scheduleMinMatch \<and> scheduleMaxMatch)"

definition filteredChangeOrders :: "Builtins \<Rightarrow> Filters \<Rightarrow> ChangeOrder list \<Rightarrow> ChangeOrder list" where
  "filteredChangeOrders js filters orders = filter (matchesFilters js filters) orders"

text \<open>The \<open>reduce\<close> over the filtered rows, adding the three amounts to the running total.\<close>

definition totalCostImpact :: "Builtins \<Rightarrow> Filters \<Rightarrow> ChangeOrder list \<Rightarrow> rat" where
  "totalCostImpact js filters orders =
     foldl (\<lambda>total order. total + costImpactEquipment order + costImpactInstallation order
                             + costImpactOther order)
           0 (filteredChangeOrders js filters orders)"

section \<open>ChangeOrderForm\<close>

definition APPROVER_ROLES :: "string list" where
  "APPROVER_ROLES =
     [''Manager of Gas Engineering'', ''Director of Gas Engineering'',
      ''Director of Gas Operations'', ''Sr. Vice President of Gas Operations'']"

record InternalApproverControl =
  role :: string
  included :: bool
  ctlStatus :: ApprovalStatus
  ctlApprovalDate :: string

record FormState =
  formData :: ChangeOrder
  internalApprovers :: "InternalApproverControl list"
  thirdPartyApprovers :: "Approval list"
  errors :: "string \<rightharpoonup> string"

text \<open>\<open>emptyFormState\<close>; the date of the day is a parameter.\<close>

definition emptyFormState :: "string \<Rightarrow> ChangeOrder" where
  "emptyFormState today =
     \<lparr>co_id = 0, title = [], description = [], reason = [], status = Status_PendingApproval,
      dateRequested = today, costImpactEquipment = 0, costImpactInstallation = 0,
      costImpactOther = 0, otherCostsExplanation = [], scheduleImpactDays = 0, approvals = []\<rparr>"

text \<open>\<open>d || ''\<close> and \<open>d || null\<close> for a date that is a string or \<open>null\<close>.\<close>

definition orEmpty :: "string option \<Rightarrow> string" where
  "orEmpty d = (case d of None \<Rightarrow> [] | Some s \<Rightarrow> s)"

definition orNull :: "string option \<Rightarrow> string option" where
  "orNull d = (case d of None \<Rightarrow> None | Some s \<Rightarrow> if s = [] then None else Some s)"

definition configuredInternalApprovers :: "Builtins \<Rightarrow> ApproverConfig \<Rightarrow> string list" where
  "configuredInternalApprovers js cfg =
     filter (\<lambda>r. case cfg r of None \<Rightarrow> False | Some n \<Rightarrow> trim js n \<noteq> []) APPROVER_ROLES"

text \<open>The effect that loads the form (\<open>useEffect\<close> on \<open>order\<close> and \<open>approverConfig\<close>).\<close>

definition newInternalState ::
  "Builtins \<Rightarrow> ApproverConfig \<Rightarrow> Approval list \<Rightarrow> InternalApproverControl list" where
  "newInternalState js cfg existingApprovals =
     map (\<lambda>r. let existing = find (\<lambda>app. Some (name app) = cfg r) existingApprovals
               in \<lparr>role = r,
                   included = (existing \<noteq> None),
                   ctlStatus = (case existing of None \<Rightarrow> Pending | Some e \<Rightarrow> approvalStatus e),
                   ctlApprovalDate = (case existing of None \<Rightarrow> [] | Some e \<Rightarrow> orEmpty (approvalDate e))\<rparr>)
         (configuredInternalApprovers js cfg)"

definition newThirdPartyState :: "ApproverConfig \<Rightarrow> Approval list \<Rightarrow> Approval list" where
  "newThirdPartyState cfg existingApprovals =
     filter (\<lambda>app. name app \<notin> ran cfg) existingApprovals"

definition formLoad ::
  "Builtins \<Rightarrow> string \<Rightarrow> ChangeOrder option \<Rightarrow> ApproverConfig \<Rightarrow> FormState" where
  "formLoad js today order cfg =
     (let existingApprovals = (case order of None \<Rightarrow> [] | Some ord \<Rightarrow> approvals ord)
      in \<lparr>formData = (case order of None \<Rightarrow> emptyFormState today | Some ord \<Rightarrow> ord),
          internalApprovers = newInternalState js cfg existingApprovals,
          thirdPartyApprovers =
            map (\<lambda>a. a\<lparr>approvalDate := Some (orEmpty (approvalDate a))\<rparr>)
                (newThirdPartyState cfg existingApprovals),
          errors = Map.empty\<rparr>)"

text \<open>
  \<open>handleChange\<close>. The event carries the name of the input, its raw text and whether
  the input has type \<open>number\<close>; the status select carries one of its options.
\<close>

datatype NumericField =
  CostImpactEquipment | CostImpactInstallation | CostImpactOther | ScheduleImpactDays

datatype TextField = Title | Description | Reason | DateRequested | OtherCostsExplanation

datatype ChangeEvent =
  NumberInput NumericField string | TextInput TextField string | StatusSelect ChangeOrderStatus

fun numericName :: "NumericField \<Rightarrow> string" where
  "numericName CostImpactEquipment = ''costImpactEquipment''"
| "numericName CostImpactInstallation = ''costImpactInstallation''"
| "numericName CostImpactOther = ''costImpactOther''"
| "numericName ScheduleImpactDays = ''scheduleImpactDays''"

fun setNumeric :: "NumericField \<Rightarrow> rat \<Rightarrow> ChangeOrder \<Rightarrow> ChangeOrder" where
  "setNumeric CostImpactEquipment v co = co\<lparr>costImpactEquipment := v\<rparr>"
| "setNumeric CostImpactInstallation v co = co\<lparr>costImpactInstallation := v\<rparr>"
| "setNumeric CostImpactOther v co = co\<lparr>costImpactOther := v\<rparr>"
| "setNumeric ScheduleImpactDays v co = co\<lparr>scheduleImpactDays := v\<rparr>"

fun getNumeric :: "NumericField \<Rightarrow> ChangeOrder \<Rightarrow> rat" where
  "getNumeric CostImpactEquipment co = costImpactEquipment co"
| "getNumeric CostImpactInstallation co = costImpactInstallation co"
| "getNumeric CostImpactOther co = costImpactOther co"
| "getNumeric ScheduleImpactDays co = scheduleImpactDays co"

fun setText :: "TextField \<Rightarrow> string \<Rightarrow> ChangeOrder \<Rightarrow> ChangeOrder" where
  "setText Title v co = co\<lparr>title := v\<rparr>"
| "setText Description v co = co\<lparr>description := v\<rparr>"
| "setText Reason v co = co\<lparr>reason := v\<rparr>"
| "setText DateRequested v co = co\<lparr>dateRequested := v\<rparr>"
| "setText OtherCostsExplanation v co = co\<lparr>otherCostsExplanation := v\<rparr>"

text \<open>\<open>parseFloat(value) || 0\<close>: \<open>NaN\<close> and \<open>0\<close> are falsy.\<close>

definition processedValue :: "Builtins \<Rightarrow> string \<Rightarrow> rat" where
  "processedValue js v = (case parseFloat js v of None \<Rightarrow> 0 | Some x \<Rightarrow> x)"

definition handleChange :: "Builtins \<Rightarrow> ChangeEvent \<Rightarrow> FormState \<Rightarrow> FormState" where
  "handleChange js e fs =
     (case e of
        TextInput f v \<Rightarrow> fs\<lparr>formData := setText f v (formData fs)\<rparr>
      | StatusSelect v \<Rightarrow> fs\<lparr>formData := (formData fs)\<lparr>status := v\<rparr>\<rparr>
      | NumberInput f v \<Rightarrow>
          fs\<lparr>formData := setNumeric f (processedValue js v) (formData fs),
             errors := (if (case parseFloat js v of None \<Rightarrow> False | Some x \<Rightarrow> x < 0)
                        then (errors fs)(numericName f \<mapsto> ''Must be a non-negative number.'')
                        else (errors fs)(numericName f := None))\<rparr>)"

text \<open>
  The edits of the approver rows. \<open>currentApprover[field] = value\<close> is one of three
  assignments on an internal row and one of three on a third-party row. An index
  outside the rows is a \<open>TypeError\<close> before any state is set: the state is unchanged.
\<close>

datatype InternalEdit = SetIncluded bool | SetStatus ApprovalStatus | SetApprovalDate string

datatype ThirdPartyEdit = SetName string | SetTPStatus ApprovalStatus | SetTPApprovalDate string

fun editInternal :: "InternalEdit \<Rightarrow> InternalApproverControl \<Rightarrow> InternalApproverControl" where
  "editInternal (SetApprovalDate v) app =
     (let app1 = app\<lparr>ctlApprovalDate := v\<rparr>
      in if v \<noteq> [] \<and> ctlStatus app1 = Pending then app1\<lparr>ctlStatus := Approved\<rparr> else app1)"
| "editInternal (SetStatus v) app =
     (let app1 = app\<lparr>ctlStatus := v\<rparr>
      in if v = Pending then app1\<lparr>ctlApprovalDate := []\<rparr> else app1)"
| "editInternal (SetIncluded v) app =
     (let app1 = app\<lparr>included := v\<rparr>
      in if \<not> v then app1\<lparr>ctlStatus := Pending, ctlApprovalDate := []\<rparr> else app1)"

definition handleInternalApproverChange :: "nat \<Rightarrow> InternalEdit \<Rightarrow> FormState \<Rightarrow> FormState" where
  "handleInternalApproverChange index edit fs =
     (if index < length (internalApprovers fs)
      then fs\<lparr>internalApprovers :=
                (internalApprovers fs)[index := editInternal edit (internalApprovers fs ! index)]\<rparr>
      else fs)"

fun editThirdParty :: "ThirdPartyEdit \<Rightarrow> Approval \<Rightarrow> Approval" where
  "editThirdParty (SetTPApprovalDate v) app =
     (let app1 = app\<lparr>approvalDate := Some v\<rparr>
      in if v \<noteq> [] \<and> approvalStatus app1 = Pending then app1\<lparr>approvalStatus := Approved\<rparr> else app1)"
| "editThirdParty (SetTPStatus v) app =
     (let app1 = app\<lparr>approvalStatus := v\<rparr>
      in if v = Pending then app1\<lparr>approvalDate := Some []\<rparr> else app1)"
| "editThirdParty (SetName v) app = app\<lparr>name := v\<rparr>"

definition handleThirdPartyApproverChange :: "nat \<Rightarrow> ThirdPartyEdit \<Rightarrow> FormState \<Rightarrow> FormState" where
  "handleThirdPartyApproverChange index edit fs =
     (if index < length (thirdPartyApprovers fs)
      then fs\<lparr>thirdPartyApprovers :=
                (thirdPartyApprovers fs)[index := editThirdParty edit (thirdPartyApprovers fs ! index)]\<rparr>
      else fs)"

definition addThirdPartyApprover :: "FormState \<Rightarrow> FormState" where
  "addThirdPartyApprover fs =
     fs\<lparr>thirdPartyApprovers := thirdPartyApprovers fs @
          [\<lparr>name = [], approvalStatus = Pending, approvalDate = Some []\<rparr>]\<rparr>"

definition removeThirdPartyApprover :: "nat \<Rightarrow> FormState \<Rightarrow> FormState" where
  "removeThirdPartyApprover index fs =
     fs\<lparr>thirdPartyApprovers :=
          map snd (filter (\<lambda>(i, app). i \<noteq> index) (enumerate 0 (thirdPartyApprovers fs)))\<rparr>"

text \<open>
  \<open>handleSubmit\<close>. The result is the form state with its errors set, and either the
  message of the \<open>alert\<close> that ends a blocked submission (\<open>Inl\<close>) or the order passed
  to \<open>onSave\<close> (\<open>Inr\<close>). A row whose role has no configured name would be given the
  name \<open>undefined\<close>; the rows of a loaded form all have one (\<open>formLoad\<close>), and the
  model writes the empty name.
\<close>

definition requiredErrors ::
  "Builtins \<Rightarrow> ChangeOrder \<Rightarrow> (string \<rightharpoonup> string) \<Rightarrow> (string \<rightharpoonup> string)" where
  "requiredErrors js fd errs =
     (let e0 = errs(''title'' := None, ''description'' := None, ''reason'' := None);
          e1 = (if trim js (title fd) = [] then e0(''title'' \<mapsto> ''Title is required.'') else e0);
          e2 = (if trim js (description fd) = []
                then e1(''description'' \<mapsto> ''Description is required.'') else e1);
          e3 = (if trim js (reason fd) = []
                then e2(''reason'' \<mapsto> ''Reason for change is required.'') else e2)
      in e3)"

definition internalApprovalOf :: "ApproverConfig \<Rightarrow> InternalApproverControl \<Rightarrow> Approval" where
  "internalApprovalOf cfg app =
     \<lparr>name = (case cfg (role app) of None \<Rightarrow> [] | Some approverName \<Rightarrow> approverName),
      approvalStatus = ctlStatus app,
      approvalDate = orNull (Some (ctlApprovalDate app))\<rparr>"

definition thirdPartyApprovalOf :: "Approval \<Rightarrow> Approval" where
  "thirdPartyApprovalOf app = app\<lparr>approvalDate := orNull (approvalDate app)\<rparr>"

definition finalApprovals :: "ApproverConfig \<Rightarrow> FormState \<Rightarrow> Approval list" where
  "finalApprovals cfg fs =
     map (internalApprovalOf cfg) (filter included (internalApprovers fs))
     @ map thirdPartyApprovalOf (filter (\<lambda>app. name app \<noteq> []) (thirdPartyApprovers fs))"

definition handleSubmit ::
  "Builtins \<Rightarrow> ApproverConfig \<Rightarrow> FormState \<Rightarrow> FormState \<times> (string + ChangeOrder)" where
  "handleSubmit js cfg fs =
     (let fd = formData fs;
          fs1 = fs\<lparr>errors := requiredErrors js fd (errors fs)\<rparr>
      in if trim js (title fd) = [] \<or> trim js (description fd) = [] \<or> trim js (reason fd) = []
         then (fs1, Inl ''Please fill out Title, Description, and Reason for Change before saving.'')
         else (fs1, Inr (fd\<lparr>approvals := finalApprovals cfg fs\<rparr>)))"

text \<open>
  The \<open>submit\<close> event as the application sees it: \<open>onSave\<close> is \<open>handleSave\<close>, and a
  blocked submission leaves the application state as it is, with its message shown.
\<close>

definition submitForm :: "Builtins \<Rightarrow> AppState \<Rightarrow> FormState \<Rightarrow> AppState" where
  "submitForm js st fs =
     (case snd (handleSubmit js (approverConfig (settings st)) fs) of
        Inl msg \<Rightarrow> st\<lparr>alerts := alerts st @ [msg]\<rparr>
      | Inr order \<Rightarrow> handleSave st order)"

text \<open>The form states that the handlers can produce from a loaded form.\<close>

inductive formReachable :: "Builtins \<Rightarrow> ApproverConfig \<Rightarrow> FormState \<Rightarrow> bool" for js cfg where
  loaded: "formReachable js cfg (formLoad js today order cfg)"
| changed: "formReachable js cfg fs \<Longrightarrow> formReachable js cfg (handleChange js e fs)"
| internalChanged:
    "formReachable js cfg fs \<Longrightarrow> formReachable js cfg (handleInternalApproverChange i ie fs)"
| thirdPartyChanged:
    "formReachable js cfg fs \<Longrightarrow> formReachable js cfg (handleThirdPartyApproverChange i te fs)"
| thirdPartyAdded: "formReachable js cfg fs \<Longrightarrow> formReachable js cfg (addThirdPartyApprover fs)"
| thirdPartyRemoved:
    "formReachable js cfg fs \<Longrightarrow> formReachable js cfg (removeThirdPartyApprover i fs)"
| submitted: "formReachable js cfg fs \<Longrightarrow> formReachable js cfg (fst (handleSubmit js cfg fs))"

section \<open>ChangeOrderForm of src/unnamed/part_000\<close>

text \<open>
  The repository holds a second copy of the application, \<open>src/unnamed/part_000\<close>.
  Its \<open>handleSave\<close>, \<open>executeDelete\<close>, import, load effect and approver handlers are
  those above; it has no filter and no renumbering. Its form differs in two
  handlers. \<open>handleChange\<close> stores the same value (\<open>parseFloat(value)\<close>, or 0 for
  \<open>NaN\<close>) and sets the error of a numeric field also when the text is empty.
  \<open>handleSubmit\<close> keeps every error already displayed, adds the errors of the blank
  required texts, and is blocked as soon as one error is there; only then are the
  errors set.
\<close>

definition handleChange_part000 :: "Builtins \<Rightarrow> ChangeEvent \<Rightarrow> FormState \<Rightarrow> FormState" where
  "handleChange_part000 js e fs =
     (case e of
        TextInput f v \<Rightarrow> fs\<lparr>formData := setText f v (formData fs)\<rparr>
      | StatusSelect v \<Rightarrow> fs\<lparr>formData := (formData fs)\<lparr>status := v\<rparr>\<rparr>
      | NumberInput f v \<Rightarrow>
          fs\<lparr>formData := setNumeric f (processedValue js v) (formData fs),
             errors := (if v = [] \<or> (case parseFloat js v of None \<Rightarrow> False | Some x \<Rightarrow> x < 0)
                        then (errors fs)(numericName f \<mapsto> ''Must be a non-negative number.'')
                        else (errors fs)(numericName f := None))\<rparr>)"

definition currentErrors ::
  "Builtins \<Rightarrow> ChangeOrder \<Rightarrow> (string \<rightharpoonup> string) \<Rightarrow> (string \<rightharpoonup> string)" where
  "currentErrors js fd errs =
     (let e1 = (if trim js (title fd) = [] then errs(''title'' \<mapsto> ''Title is required.'') else errs);
          e2 = (if trim js (description fd) = []
                then e1(''description'' \<mapsto> ''Description is required.'') else e1);
          e3 = (if trim js (reason fd) = []
                then e2(''reason'' \<mapsto> ''Reason for change is required.'') else e2)
      in e3)"

definition handleSubmit_part000 ::
  "Builtins \<Rightarrow> ApproverConfig \<Rightarrow> FormState \<Rightarrow> FormState \<times> (string + ChangeOrder)" where
  "handleSubmit_part000 js cfg fs =
     (let fd = formData fs;
          errs = currentErrors js fd (errors fs)
      in if dom errs \<noteq> {}
         then (fs\<lparr>errors := errs\<rparr>, Inl ''Please fix the errors before saving.'')
         else (fs, Inr (fd\<lparr>approvals := finalApprovals cfg fs\<rparr>)))"

section \<open>Reference notions and sample data\<close>

text \<open>
  The structural validation of an imported file in the words of the specification:
  the content is valid JSON, the parsed value has a settings value, and its
  \<open>changeOrders\<close> is a sequence. A settings value that the language counts as false
  (\<open>null\<close>, \<open>false\<close>, \<open>0\<close>, the empty string) is no settings value.
\<close>

definition passesStructuralValidation :: "Importer \<Rightarrow> string \<Rightarrow> bool" where
  "passesStructuralValidation imp fileContent =
     (case jsonParse imp fileContent of
        None \<Rightarrow> False
      | Some data \<Rightarrow>
          (case data of
             JObject members \<Rightarrow>
               truthy (map_of members ''settings'') \<and> isArray (map_of members ''changeOrders'')
           | _ \<Rightarrow> False))"

text \<open>The initial values of the \<open>useState\<close> cells of \<open>App\<close>.\<close>

definition initialState :: AppState where
  "initialState =
     \<lparr>changeOrders = [], currentOrder = None, view = TableView,
      isDeleteConfirmOpen = False, isRenumberConfirmOpen = False, selectedOrderIds = {},
      settings = \<lparr>projectName = [], projectLocation = [], projectManager = [],
                  approverConfig = Map.empty\<rparr>,
      alerts = []\<rparr>"

text \<open>A change order with the given id and request date, for the worked examples.\<close>

definition sampleOrder :: "int \<Rightarrow> string \<Rightarrow> ChangeOrder" where
  "sampleOrder i d =
     \<lparr>co_id = i, title = ''Reroute main'', description = ''Reroute the gas main'',
      reason = ''Conflict with storm drain'', status = Status_PendingApproval,
      dateRequested = d, costImpactEquipment = 0, costImpactInstallation = 0,
      costImpactOther = 0, otherCostsExplanation = [], scheduleImpactDays = 0, approvals = []\<rparr>"

definition sampleApproval :: "string \<Rightarrow> ApprovalStatus \<Rightarrow> Approval" where
  "sampleApproval n s = \<lparr>name = n, approvalStatus = s, approvalDate = None\<rparr>"

text \<open>
  The time value of the request date of an order; used where every date of the
  collection is valid.
\<close>

definition timeOf :: "Builtins \<Rightarrow> ChangeOrder \<Rightarrow> int" where
  "timeOf js co = (case getTime js (dateRequested co) of None \<Rightarrow> 0 | Some t \<Rightarrow> t)"


text \<open>
  The functions of the language for the worked examples. The parsers and the date
  conversion are given on the strings of the examples (\<open>NaN\<close> on every other string,
  the empty one among them): three dates at midnight UTC, in milliseconds, and three
  decimal numbers. \<open>asciiTrim\<close> and \<open>asciiLowerCase\<close> are \<open>trim\<close> and
  \<open>toLowerCase\<close> as they act on strings of ASCII characters, which the strings of
  the examples are.
\<close>

definition asciiWhiteSpace :: "char \<Rightarrow> bool" where
  "asciiWhiteSpace c = (of_char c \<in> {9::nat, 10, 11, 12, 13, 32})"

definition asciiTrim :: "string \<Rightarrow> string" where
  "asciiTrim s = rev (dropWhile asciiWhiteSpace (rev (dropWhile asciiWhiteSpace s)))"

definition asciiLowerChar :: "char \<Rightarrow> char" where
  "asciiLowerChar c =
     (if (65::nat) \<le> of_char c \<and> of_char c \<le> (90::nat) then char_of (of_char c + (32::nat)) else c)"

definition asciiLowerCase :: "string \<Rightarrow> string" where
  "asciiLowerCase s = map asciiLowerChar s"

definition sampleBuiltins :: Builtins where
  "sampleBuiltins =
     \<lparr>parseFloat = (\<lambda>s. if s = ''-5'' then Some (- 5) else if s = ''1000'' then Some 1000
                        else if s = ''5000'' then Some 5000 else None),
      parseInt10 = (\<lambda>s. None),
      getTime = (\<lambda>s. if s = ''2024-01-10'' then Some 1704844800000
                     else if s = ''2024-02-15'' then Some 1707955200000
                     else if s = ''2024-03-01'' then Some 1709251200000 else None),
      trim = asciiTrim,
      toLowerCase = asciiLowerCase\<rparr>"

text \<open>
  A new form in which the three required texts are typed and \<open>-5\<close> is typed into
  the equipment cost.
\<close>

definition negativeCostForm :: FormState where
  "negativeCostForm =
     handleChange sampleBuiltins (NumberInput CostImpactEquipment ''-5'')
       (handleChange sampleBuiltins (TextInput Reason ''Conflict with storm drain'')
         (handleChange sampleBuiltins (TextInput Description ''Reroute the gas main'')
           (handleChange sampleBuiltins (TextInput Title ''Reroute main'')
             (formLoad sampleBuiltins ''2024-03-01'' None Map.empty))))"


text \<open>
  A new form in which the three required texts are typed and the request date is
  cleared.
\<close>

definition blankDateForm :: FormState where
  "blankDateForm =
     handleChange sampleBuiltins (TextInput DateRequested [])
       (handleChange sampleBuiltins (TextInput Reason ''Conflict with storm drain'')
         (handleChange sampleBuiltins (TextInput Description ''Reroute the gas main'')
           (handleChange sampleBuiltins (TextInput Title ''Reroute main'')
             (formLoad sampleBuiltins ''2024-03-01'' None Map.empty))))"

text \<open>
  A configuration with one role in use, and a new form under it: the required texts
  are typed, the internal row is included and set to Approved, and two third-party
  rows are added, of which only the first is given a name.
\<close>

definition sampleConfig :: ApproverConfig where
  "sampleConfig = [''Manager of Gas Engineering'' \<mapsto> ''Avery Lee'']"

definition reviewedForm :: FormState where
  "reviewedForm =
     handleThirdPartyApproverChange 0 (SetName ''Regulator'')
       (addThirdPartyApprover (addThirdPartyApprover
         (handleInternalApproverChange 0 (SetStatus Approved)
           (handleInternalApproverChange 0 (SetIncluded True)
             (handleChange sampleBuiltins (TextInput Reason ''Conflict with storm drain'')
               (handleChange sampleBuiltins (TextInput Description ''Reroute the gas main'')
                 (handleChange sampleBuiltins (TextInput Title ''Reroute main'')
                   (formLoad sampleBuiltins ''2024-03-01'' None sampleConfig))))))))"

section \<open>Facts about the sort and the new id\<close>

lemma foldl_max_Max: "foldl max (a::int) xs = Max (insert a (set xs))"
proof (induction xs arbitrary: a)
  case Nil
  then show ?case by simp
next
  case (Cons x xs)
  have "Max (insert (max a x) (set xs)) = Max (insert a (insert x (set xs)))"
    by (cases "set xs = {}") (simp_all add: max.assoc Max_insert max.commute max.left_commute)
  with Cons show ?case by simp
qed

lemma plusOne_exact: "m < 2 ^ 53 \<Longrightarrow> plusOne m = m + 1"
  by (simp add: plusOne_def)

lemma Max_ids_bounded:
  assumes "\<forall>co \<in> set orders. co_id co < 2 ^ 53"
  shows "Max (insert 0 (co_id ` set orders)) < 2 ^ 53"
proof -
  have "\<forall>a \<in> insert 0 (co_id ` set orders). a < 2 ^ 53"
    using assms by auto
  then show ?thesis by (subst Max_less_iff) auto
qed

lemma newCoId_Max:
  "\<forall>co \<in> set orders. co_id co < 2 ^ 53 \<Longrightarrow>
   newCoId orders = Max (insert 0 (co_id ` set orders)) + 1"
  by (simp add: newCoId_def foldl_max_Max plusOne_exact Max_ids_bounded)

lemma newCoId_greater:
  assumes "\<forall>c \<in> set orders. co_id c < 2 ^ 53" and "co \<in> set orders"
  shows "co_id co < newCoId orders"
proof -
  from assms(2) have "co_id co \<le> Max (insert 0 (co_id ` set orders))"
    by (intro Max_ge) auto
  then show ?thesis by (simp add: newCoId_Max [OF assms(1)])
qed

lemma js_insert_key:
  "\<forall>y \<in> set ys. comparefn x y = Some (k x - k y) \<Longrightarrow> js_insert comparefn x ys = insort_key k x ys"
  by (induction ys) (auto simp: sortCompare_def)

lemma set_js_insert: "set (js_insert c x ys) = insert x (set ys)"
  by (induction ys) auto

lemma set_js_sort: "set (js_sort c xs) = set xs"
  by (induction xs) (auto simp: js_sort_def set_js_insert)

lemma js_sort_key:
  "\<forall>x \<in> set xs. \<forall>y \<in> set xs. comparefn x y = Some (k x - k y) \<Longrightarrow> js_sort comparefn xs = sort_key k xs"
proof (induction xs)
  case Nil
  then show ?case by (simp add: js_sort_def)
next
  case (Cons x xs)
  then have ih: "js_sort comparefn xs = sort_key k xs" by simp
  have "js_sort comparefn (x # xs) = js_insert comparefn x (js_sort comparefn xs)"
    by (simp add: js_sort_def)
  also have "\<dots> = insort_key k x (js_sort comparefn xs)"
    using Cons.prems by (intro js_insert_key) (simp add: set_js_sort)
  finally show ?case by (simp add: ih)
qed

lemma js_sort_byIdDescending: "js_sort byIdDescending xs = sort_key (\<lambda>co. - co_id co) xs"
  by (rule js_sort_key) (simp add: byIdDescending_def)

lemma handleSave_create:
  "co_id order = 0 \<Longrightarrow>
   changeOrders (handleSave st order) =
     sort_key (\<lambda>co. - co_id co) (changeOrders st @ [(orderToSave order)\<lparr>co_id := newCoId (changeOrders st)\<rparr>])"
  by (simp add: handleSave_def Let_def orderToSave_def js_sort_byIdDescending)

lemma handleSave_update:
  "co_id order \<noteq> 0 \<Longrightarrow>
   changeOrders (handleSave st order) =
     map (\<lambda>co. if co_id co = co_id order then orderToSave order else co) (changeOrders st)"
  by (simp add: handleSave_def Let_def orderToSave_def)

lemma handleSave_stored_status:
  assumes "co \<in> set (changeOrders (handleSave st order))"
    and "co_id co = (if co_id order = 0 then newCoId (changeOrders st) else co_id order)"
    and "co_id order = 0 \<longrightarrow> (\<forall>c \<in> set (changeOrders st). co_id c < 2 ^ 53)"
  shows "status co = newStatus order"
proof (cases "co_id order = 0")
  case True
  with assms have "co \<in> set (changeOrders st) \<or> co = (orderToSave order)\<lparr>co_id := newCoId (changeOrders st)\<rparr>"
    by (auto simp: handleSave_create)
  moreover have "co \<notin> set (changeOrders st)"
    using assms(2,3) True newCoId_greater [of "changeOrders st" co] by auto
  ultimately show ?thesis by (auto simp: orderToSave_def)
next
  case False
  with assms show ?thesis
    by (auto simp: handleSave_update orderToSave_def split: if_splits)
qed

lemma handleSave_create_member:
  "co_id order = 0 \<Longrightarrow>
   (orderToSave order)\<lparr>co_id := newCoId (changeOrders st)\<rparr> \<in> set (changeOrders (handleSave st order))"
  by (simp add: handleSave_create)


section \<open>Facts about the import\<close>

lemma onload_invalid:
  "\<not> passesStructuralValidation imp fileContent \<Longrightarrow> onload imp fileContent st = importFailed st"
  by (auto simp: passesStructuralValidation_def onload_def split: option.splits json.splits)

lemma onload_valid:
  assumes "passesStructuralValidation imp fileContent"
  shows "\<exists>members s items.
    jsonParse imp fileContent = Some (JObject members) \<and>
    map_of members ''settings'' = Some s \<and>
    map_of members ''changeOrders'' = Some (JArray items) \<and>
    onload imp fileContent st =
       st\<lparr>settings := asSettings imp (Some s),
          changeOrders := map (asOrder imp) items,
          currentOrder := None, view := TableView, selectedOrderIds := {},
          alerts := alerts st @ [''Project imported successfully!'']\<rparr>"
proof -
  from assms obtain members where p: "jsonParse imp fileContent = Some (JObject members)"
    and t: "truthy (map_of members ''settings'')" and a: "isArray (map_of members ''changeOrders'')"
    by (auto simp: passesStructuralValidation_def split: option.splits json.splits)
  from t obtain s where s: "map_of members ''settings'' = Some s"
    by (cases "map_of members ''settings''") auto
  from a obtain items where i: "map_of members ''changeOrders'' = Some (JArray items)"
    by (cases "map_of members ''changeOrders''" rule: isArray.cases) auto
  have "onload imp fileContent st =
       st\<lparr>settings := asSettings imp (Some s),
          changeOrders := map (asOrder imp) items,
          currentOrder := None, view := TableView, selectedOrderIds := {},
          alerts := alerts st @ [''Project imported successfully!'']\<rparr>"
    using p t s i by (simp add: onload_def)
  with p s i show ?thesis by blast
qed

section \<open>Facts about renumbering\<close>

lemma sortedOrders_key:
  assumes "\<forall>co \<in> set orders. getTime js (dateRequested co) \<noteq> None"
  shows "sortedOrders js orders = sort_key (timeOf js) orders"
  unfolding sortedOrders_def
proof (rule js_sort_key, intro ballI)
  fix x y assume "x \<in> set orders" "y \<in> set orders"
  with assms have "getTime js (dateRequested x) \<noteq> None" "getTime js (dateRequested y) \<noteq> None"
    by blast+
  then obtain tx ty where "getTime js (dateRequested x) = Some tx" "getTime js (dateRequested y) = Some ty"
    by blast
  then show "byDateRequested js x y = Some (timeOf js x - timeOf js y)"
    by (simp add: byDateRequested_def timeOf_def)
qed

lemma mset_js_insert: "mset (js_insert c x ys) = add_mset x (mset ys)"
  by (induction ys) auto

lemma mset_js_sort: "mset (js_sort c xs) = mset xs"
  by (induction xs) (auto simp: js_sort_def mset_js_insert)

lemma length_js_insert: "length (js_insert c x ys) = Suc (length ys)"
  by (induction ys) auto

lemma length_js_sort: "length (js_sort c xs) = length xs"
  by (induction xs) (auto simp: js_sort_def length_js_insert)

lemma length_sortedOrders: "length (sortedOrders g orders) = length orders"
  by (simp add: sortedOrders_def length_js_sort)

lemma length_renumberedOrders: "length (renumberedOrders g orders) = length orders"
  by (simp add: renumberedOrders_def length_sortedOrders)

lemma nth_renumberedOrders:
  "i < length orders \<Longrightarrow>
   renumberedOrders g orders ! i = (sortedOrders g orders ! i)\<lparr>co_id := int i + 1\<rparr>"
  by (simp add: renumberedOrders_def length_sortedOrders nth_enumerate_eq)

lemma renumber_fixed:
  assumes "\<forall>i < length xs. co_id (xs ! i) = int i + 1"
  shows "map (\<lambda>(index, order). order\<lparr>co_id := int index + 1\<rparr>) (enumerate 0 xs) = xs"
  using assms by (auto simp: list_eq_iff_nth_eq nth_enumerate_eq)

lemma renumberedOrders_idem:
  assumes "\<forall>co \<in> set orders. getTime g (dateRequested co) \<noteq> None"
  shows "renumberedOrders g (renumberedOrders g orders) = renumberedOrders g orders"
proof -
  let ?r = "renumberedOrders g orders"
  let ?s = "sortedOrders g orders"
  have len: "length ?r = length ?s" by (simp add: length_renumberedOrders length_sortedOrders)
  have nth: "\<forall>i < length ?r. ?r ! i = (?s ! i)\<lparr>co_id := int i + 1\<rparr>"
    by (simp add: length_renumberedOrders nth_renumberedOrders)
  have s: "?s = sort_key (timeOf g) orders" using assms by (rule sortedOrders_key)
  have dates: "map dateRequested ?r = map dateRequested ?s"
    using len nth by (auto simp: list_eq_iff_nth_eq)
  have "map (timeOf g) ?r = map (timeOf g \<circ> id) ?s"
    using len nth by (auto simp: list_eq_iff_nth_eq timeOf_def)
  then have srt: "sorted (map (timeOf g) ?r)" by (simp add: s)
  have valid: "\<forall>co \<in> set ?r. getTime g (dateRequested co) \<noteq> None"
  proof
    fix co assume "co \<in> set ?r"
    then have "dateRequested co \<in> set (map dateRequested ?s)"
      unfolding dates [symmetric] by simp
    then obtain c where "c \<in> set ?s" "dateRequested co = dateRequested c" by auto
    with assms show "getTime g (dateRequested co) \<noteq> None" by (simp add: s)
  qed
  have "sortedOrders g ?r = sort_key (timeOf g) ?r" using valid by (rule sortedOrders_key)
  also have "\<dots> = ?r" using srt by (rule sort_key_id_if_sorted)
  finally have fixed: "sortedOrders g ?r = ?r" .
  have "renumberedOrders g ?r = map (\<lambda>(index, order). order\<lparr>co_id := int index + 1\<rparr>) (enumerate 0 ?r)"
    by (simp add: renumberedOrders_def [of g ?r] fixed)
  also have "\<dots> = ?r"
    using nth by (intro renumber_fixed) simp
  finally show ?thesis .
qed

lemma ids_renumberedOrders:
  "map co_id (renumberedOrders g orders) = map int [1 ..< Suc (length orders)]"
proof (rule nth_equalityI)
  show "length (map co_id (renumberedOrders g orders)) = length (map int [1 ..< Suc (length orders)])"
    by (simp add: length_renumberedOrders del: upt_Suc)
next
  fix i assume "i < length (map co_id (renumberedOrders g orders))"
  then have i: "i < length orders" by (simp add: length_renumberedOrders)
  then have "map co_id (renumberedOrders g orders) ! i = int i + 1"
    by (simp add: length_renumberedOrders nth_renumberedOrders)
  moreover from i have "[1 ..< Suc (length orders)] ! i = 1 + i"
    by (intro nth_upt) simp
  then have "map int [1 ..< Suc (length orders)] ! i = int i + 1"
    using i by (simp del: upt_Suc)
  ultimately show "map co_id (renumberedOrders g orders) ! i = map int [1 ..< Suc (length orders)] ! i"
    by simp
qed

section \<open>Facts about the filter and the form\<close>

lemma foldl_total:
  "foldl (\<lambda>total order. total + costImpactEquipment order + costImpactInstallation order
                             + costImpactOther order) a xs
   = a + sum_list (map totalCost xs)"
  by (induction xs arbitrary: a) (simp_all add: totalCost_def algebra_simps)

lemma matches_default:
  "parseFloat js [] = None \<Longrightarrow> parseInt10 js [] = None \<Longrightarrow> matchesFilters js defaultFilters co"
  by (simp add: matchesFilters_def defaultFilters_def)

lemma dom_currentErrors:
  "dom (currentErrors js fd errs) =
     dom errs \<union> (if trim js (title fd) = [] then {''title''} else {})
       \<union> (if trim js (description fd) = [] then {''description''} else {})
       \<union> (if trim js (reason fd) = [] then {''reason''} else {})"
  by (auto simp: currentErrors_def Let_def)

lemma blocked_part000:
  "dom (currentErrors js fd errs) \<noteq> {} \<longleftrightarrow>
     (trim js (title fd) = [] \<or> trim js (description fd) = [] \<or> trim js (reason fd) = []
      \<or> dom errs \<noteq> {})"
  unfolding dom_currentErrors by auto

lemma roles_formReachable:
  "formReachable js cfg fs \<Longrightarrow> map role (internalApprovers fs) = configuredInternalApprovers js cfg"
proof (induction rule: formReachable.induct)
  case (loaded today order)
  show ?case by (simp add: formLoad_def newInternalState_def Let_def comp_def)
next
  case (changed fs e)
  then show ?case by (cases e) (simp_all add: handleChange_def)
next
  case (internalChanged fs i ie)
  have keep: "role (editInternal ie app) = role app" for app
    by (cases ie) (simp_all add: Let_def)
  have "map role ((internalApprovers fs)[i := editInternal ie (internalApprovers fs ! i)])
          = map role (internalApprovers fs)"
    by (cases "i < length (internalApprovers fs)")
       (simp_all add: list_eq_iff_nth_eq nth_list_update keep)
  with internalChanged show ?case
    by (simp add: handleInternalApproverChange_def)
next
  case (thirdPartyChanged fs i te)
  then show ?case by (simp add: handleThirdPartyApproverChange_def)
next
  case (thirdPartyAdded fs)
  then show ?case by (simp add: addThirdPartyApprover_def)
next
  case (thirdPartyRemoved fs i)
  then show ?case by (simp add: removeThirdPartyApprover_def)
next
  case (submitted fs)
  then show ?case by (simp add: handleSubmit_def Let_def)
qed

lemma configured_has_name:
  "r \<in> set (configuredInternalApprovers js cfg) \<Longrightarrow> \<exists>n. cfg r = Some n \<and> trim js n \<noteq> []"
  by (auto simp: configuredInternalApprovers_def split: option.splits)

lemma handleSubmit_commits:
  assumes "trim js (title (formData fs)) \<noteq> []" "trim js (description (formData fs)) \<noteq> []"
    "trim js (reason (formData fs)) \<noteq> []"
  shows "snd (handleSubmit js cfg fs) = Inr ((formData fs)\<lparr>approvals := finalApprovals cfg fs\<rparr>)"
  using assms by (simp add: handleSubmit_def Let_def)

section \<open>Status derivation at save\<close>

text \<open>
  Claim C1. When a change order is saved and at least one of its approvals is
  Rejected, the status computed for it is Rejected, whatever the other approvals and
  whatever its current status. On create the entry is stored, with that status, under
  the new id; on update every entry under its id carries that status. On create no
  other entry is under the new id as long as the existing ids are below \<open>2^53\<close>,
  where adding 1 is exact.
\<close>

theorem C1_rejected:
  assumes "\<exists>app \<in> set (approvals order). approvalStatus app = Rejected"
  shows "status (orderToSave order) = Status_Rejected \<and>
         (\<forall>co \<in> set (changeOrders (handleSave st order)).
            co_id co = (if co_id order = 0 then newCoId (changeOrders st) else co_id order) \<and>
            (co_id order = 0 \<longrightarrow> (\<forall>c \<in> set (changeOrders st). co_id c < 2 ^ 53))
            \<longrightarrow> status co = Status_Rejected) \<and>
         (co_id order = 0 \<longrightarrow>
            (orderToSave order)\<lparr>co_id := newCoId (changeOrders st)\<rparr>
              \<in> set (changeOrders (handleSave st order)) \<and>
            status ((orderToSave order)\<lparr>co_id := newCoId (changeOrders st)\<rparr>) = Status_Rejected)"
proof -
  from assms have r: "newStatus order = Status_Rejected"
    by (auto simp: newStatus_def Let_def list_ex_iff)
  have a: "status (orderToSave order) = Status_Rejected"
    using r by (simp add: orderToSave_def)
  have b: "\<forall>co \<in> set (changeOrders (handleSave st order)).
            co_id co = (if co_id order = 0 then newCoId (changeOrders st) else co_id order) \<and>
            (co_id order = 0 \<longrightarrow> (\<forall>c \<in> set (changeOrders st). co_id c < 2 ^ 53))
            \<longrightarrow> status co = Status_Rejected"
    using r handleSave_stored_status [of _ st order] by metis
  have c: "co_id order = 0 \<longrightarrow>
            (orderToSave order)\<lparr>co_id := newCoId (changeOrders st)\<rparr>
              \<in> set (changeOrders (handleSave st order)) \<and>
            status ((orderToSave order)\<lparr>co_id := newCoId (changeOrders st)\<rparr>) = Status_Rejected"
    using a handleSave_create_member [of order st] by simp
  from a b c show ?thesis by blast
qed

theorem C1_rejected_witness:
  "(\<exists>app \<in> set (approvals ((sampleOrder 0 ''2024-03-01'')
        \<lparr>status := Status_InProgress,
         approvals := [sampleApproval ''A'' Approved, sampleApproval ''B'' Rejected]\<rparr>)).
      approvalStatus app = Rejected) \<and>
   status (orderToSave ((sampleOrder 0 ''2024-03-01'')
        \<lparr>status := Status_InProgress,
         approvals := [sampleApproval ''A'' Approved, sampleApproval ''B'' Rejected]\<rparr>))
     = Status_Rejected"
proof -
  let ?w = "(sampleOrder 0 ''2024-03-01'')
        \<lparr>status := Status_InProgress,
         approvals := [sampleApproval ''A'' Approved, sampleApproval ''B'' Rejected]\<rparr>"
  have h: "\<exists>app \<in> set (approvals ?w). approvalStatus app = Rejected"
    by (simp add: sampleApproval_def)
  from C1_rejected [OF h, of initialState] have "status (orderToSave ?w) = Status_Rejected"
    by blast
  with h show ?thesis by blast
qed

text \<open>
  Claim C2. When a change order is saved and none of its approvals is Rejected: if
  its current status is In Progress or Completed the computed status is the current
  one; otherwise it is Approved when the approvals are non-empty and all Approved, and
  Pending Approval in the remaining cases, which are exactly: no approvals, or some
  approval Pending. On create the entry is stored, with the computed status, under the
  new id; on update every entry under its id carries the computed status. On create no
  other entry is under the new id as long as the existing ids are below \<open>2^53\<close>.
\<close>

theorem C2_not_rejected:
  assumes "\<forall>app \<in> set (approvals order). approvalStatus app \<noteq> Rejected"
  shows "status (orderToSave order) =
           (if status order = Status_InProgress \<or> status order = Status_Completed then status order
            else if approvals order \<noteq> [] \<and> (\<forall>app \<in> set (approvals order). approvalStatus app = Approved)
                 then Status_Approved
            else Status_PendingApproval) \<and>
         ((approvals order \<noteq> [] \<and> (\<forall>app \<in> set (approvals order). approvalStatus app = Approved))
            \<or> approvals order = [] \<or> (\<exists>app \<in> set (approvals order). approvalStatus app = Pending)) \<and>
         (\<forall>co \<in> set (changeOrders (handleSave st order)).
            co_id co = (if co_id order = 0 then newCoId (changeOrders st) else co_id order) \<and>
            (co_id order = 0 \<longrightarrow> (\<forall>c \<in> set (changeOrders st). co_id c < 2 ^ 53))
            \<longrightarrow> status co = status (orderToSave order)) \<and>
         (co_id order = 0 \<longrightarrow>
            (orderToSave order)\<lparr>co_id := newCoId (changeOrders st)\<rparr>
              \<in> set (changeOrders (handleSave st order)) \<and>
            status ((orderToSave order)\<lparr>co_id := newCoId (changeOrders st)\<rparr>)
              = status (orderToSave order))"
proof -
  have a: "status (orderToSave order) = newStatus order"
    by (simp add: orderToSave_def)
  have b: "newStatus order =
           (if status order = Status_InProgress \<or> status order = Status_Completed then status order
            else if approvals order \<noteq> [] \<and> (\<forall>app \<in> set (approvals order). approvalStatus app = Approved)
                 then Status_Approved
            else Status_PendingApproval)"
    using assms by (auto simp: newStatus_def Let_def list_ex_iff list_all_iff)
  have c: "(approvals order \<noteq> [] \<and> (\<forall>app \<in> set (approvals order). approvalStatus app = Approved))
            \<or> approvals order = [] \<or> (\<exists>app \<in> set (approvals order). approvalStatus app = Pending)"
    using assms by (metis ApprovalStatus.exhaust)
  have d: "\<forall>co \<in> set (changeOrders (handleSave st order)).
            co_id co = (if co_id order = 0 then newCoId (changeOrders st) else co_id order) \<and>
            (co_id order = 0 \<longrightarrow> (\<forall>c \<in> set (changeOrders st). co_id c < 2 ^ 53))
            \<longrightarrow> status co = status (orderToSave order)"
    unfolding a using handleSave_stored_status [of _ st order] by metis
  have e: "co_id order = 0 \<longrightarrow>
            (orderToSave order)\<lparr>co_id := newCoId (changeOrders st)\<rparr>
              \<in> set (changeOrders (handleSave st order)) \<and>
            status ((orderToSave order)\<lparr>co_id := newCoId (changeOrders st)\<rparr>)
              = status (orderToSave order)"
    using handleSave_create_member [of order st] by simp
  from a b c d e show ?thesis by presburger
qed

theorem C2_not_rejected_witness:
  "map approvalStatus (approvals ((sampleOrder 0 ''2024-03-01'')
        \<lparr>approvals := [sampleApproval ''A'' Approved, sampleApproval ''B'' Pending]\<rparr>))
     = [Approved, Pending] \<and>
   status (orderToSave ((sampleOrder 0 ''2024-03-01'')
        \<lparr>approvals := [sampleApproval ''A'' Approved, sampleApproval ''B'' Pending]\<rparr>))
     = Status_PendingApproval"
proof -
  let ?w = "(sampleOrder 0 ''2024-03-01'')
        \<lparr>approvals := [sampleApproval ''A'' Approved, sampleApproval ''B'' Pending]\<rparr>"
  have h: "\<forall>app \<in> set (approvals ?w). approvalStatus app \<noteq> Rejected"
    by (simp add: sampleApproval_def)
  from C2_not_rejected [OF h, of initialState]
  have "status (orderToSave ?w) = Status_PendingApproval"
    by (simp add: sampleOrder_def sampleApproval_def)
  then show ?thesis by (simp add: sampleApproval_def)
qed

section \<open>Create and update\<close>

text \<open>
  Claim C3, as amended. Saving an order with id 0 stores it under a new id: the new
  collection holds the old entries and that one entry more, and it is sorted by id in
  descending order. When the existing ids are all below \<open>2^53\<close> the new id is
  \<open>max (existing ids \<union> {0}) + 1\<close>; on an empty collection it is 1.
\<close>

theorem C3_create:
  assumes "co_id order = 0"
  shows "mset (changeOrders (handleSave st order)) =
           mset (changeOrders st)
           + {# (orderToSave order)\<lparr>co_id := newCoId (changeOrders st)\<rparr> #} \<and>
         sorted_wrt (\<lambda>a b. co_id a \<ge> co_id b) (changeOrders (handleSave st order)) \<and>
         ((\<forall>co \<in> set (changeOrders st). co_id co < 2 ^ 53) \<longrightarrow>
            newCoId (changeOrders st) = Max (insert 0 (co_id ` set (changeOrders st))) + 1) \<and>
         (changeOrders st = [] \<longrightarrow>
            changeOrders (handleSave st order) = [(orderToSave order)\<lparr>co_id := 1\<rparr>])"
proof -
  let ?new = "(orderToSave order)\<lparr>co_id := newCoId (changeOrders st)\<rparr>"
  have eq: "changeOrders (handleSave st order) = sort_key (\<lambda>co. - co_id co) (changeOrders st @ [?new])"
    using assms by (rule handleSave_create)
  have m: "mset (changeOrders (handleSave st order)) = mset (changeOrders st) + {# ?new #}"
    by (simp add: eq)
  have "sorted (map (\<lambda>co. - co_id co) (changeOrders (handleSave st order)))"
    unfolding eq by (rule sorted_sort_key)
  then have s: "sorted_wrt (\<lambda>a b. co_id a \<ge> co_id b) (changeOrders (handleSave st order))"
    by (simp add: sorted_wrt_map)
  have n: "(\<forall>co \<in> set (changeOrders st). co_id co < 2 ^ 53) \<longrightarrow>
            newCoId (changeOrders st) = Max (insert 0 (co_id ` set (changeOrders st))) + 1"
    using newCoId_Max [of "changeOrders st"] by blast
  have e: "changeOrders st = [] \<longrightarrow> changeOrders (handleSave st order) = [(orderToSave order)\<lparr>co_id := 1\<rparr>]"
    by (simp add: eq newCoId_def plusOne_def)
  from m s n e show ?thesis by blast
qed

theorem C3_create_witness:
  "co_id (sampleOrder 0 ''2024-03-01'') = 0 \<and>
   sorted_wrt (\<lambda>a b. co_id a \<ge> co_id b) (changeOrders (handleSave
      (initialState\<lparr>changeOrders := [sampleOrder 1 ''2024-01-10'', sampleOrder 3 ''2024-02-15'']\<rparr>)
      (sampleOrder 0 ''2024-03-01''))) \<and>
   newCoId [sampleOrder 1 ''2024-01-10'', sampleOrder 3 ''2024-02-15''] = 4 \<and>
   map co_id (changeOrders (handleSave
      (initialState\<lparr>changeOrders := [sampleOrder 1 ''2024-01-10'', sampleOrder 3 ''2024-02-15'']\<rparr>)
      (sampleOrder 0 ''2024-03-01''))) = [4, 3, 1]"
proof -
  let ?st = "initialState\<lparr>changeOrders := [sampleOrder 1 ''2024-01-10'', sampleOrder 3 ''2024-02-15'']\<rparr>"
  let ?w = "sampleOrder 0 ''2024-03-01''"
  have h: "co_id ?w = 0" by (simp add: sampleOrder_def)
  have b: "\<forall>co \<in> set (changeOrders ?st). co_id co < 2 ^ 53"
    by (simp add: sampleOrder_def)
  note th = C3_create [OF h, of ?st]
  from th have s: "sorted_wrt (\<lambda>a b. co_id a \<ge> co_id b) (changeOrders (handleSave ?st ?w))"
    by blast
  from th b have "newCoId (changeOrders ?st) = Max (insert 0 (co_id ` set (changeOrders ?st))) + 1"
    by blast
  then have n: "newCoId [sampleOrder 1 ''2024-01-10'', sampleOrder 3 ''2024-02-15''] = 4"
    by (simp add: sampleOrder_def)
  have "map co_id (changeOrders (handleSave ?st ?w)) = [4, 3, 1]"
    by (simp add: handleSave_def Let_def orderToSave_def newCoId_def plusOne_def js_sort_def
        byIdDescending_def sortCompare_def sampleOrder_def)
  with h s n show ?thesis by blast
qed

text \<open>
  The claim as first stated covers every collection. Here the collection holds one
  order with the id \<open>2^53 = 9007199254740992\<close>, and an order with id 0 is saved: the
  sum \<open>2^53 + 1\<close> is rounded to \<open>2^53\<close>, so the new order is stored with the id the
  old one has, behind it, and not with \<open>max + 1 = 9007199254740993\<close>.
\<close>

theorem C3_large_id_counterexample:
  "map co_id (changeOrders (handleSave
      (initialState\<lparr>changeOrders := [sampleOrder 9007199254740992 ''2024-01-10'']\<rparr>)
      (sampleOrder 0 ''2024-03-01''))) = [9007199254740992, 9007199254740992] \<and>
   map dateRequested (changeOrders (handleSave
      (initialState\<lparr>changeOrders := [sampleOrder 9007199254740992 ''2024-01-10'']\<rparr>)
      (sampleOrder 0 ''2024-03-01''))) = [''2024-01-10'', ''2024-03-01''] \<and>
   Max (insert 0 (co_id ` set [sampleOrder 9007199254740992 ''2024-01-10''])) + 1
     = 9007199254740993"
  by (simp add: handleSave_def Let_def orderToSave_def newCoId_def plusOne_def js_sort_def
      byIdDescending_def sortCompare_def sampleOrder_def initialState_def)

text \<open>
  Claim C7, as amended. Saving an order with a non-zero id replaces every entry that
  has this id by the saved order and leaves every other entry and the order of the
  collection as they are. When no entry has this id, the collection is unchanged, no
  message is shown, and the handler returns to the table as after any save.
\<close>

theorem C7_update:
  assumes "co_id order \<noteq> 0"
  shows "length (changeOrders (handleSave st order)) = length (changeOrders st) \<and>
         (\<forall>i < length (changeOrders st).
            changeOrders (handleSave st order) ! i =
              (if co_id (changeOrders st ! i) = co_id order then orderToSave order
               else changeOrders st ! i)) \<and>
         ((\<forall>co \<in> set (changeOrders st). co_id co \<noteq> co_id order) \<longrightarrow>
            changeOrders (handleSave st order) = changeOrders st \<and>
            alerts (handleSave st order) = alerts st \<and>
            view (handleSave st order) = TableView)"
proof -
  have eq: "changeOrders (handleSave st order) =
              map (\<lambda>co. if co_id co = co_id order then orderToSave order else co) (changeOrders st)"
    using assms by (rule handleSave_update)
  have "(\<forall>co \<in> set (changeOrders st). co_id co \<noteq> co_id order) \<longrightarrow>
          map (\<lambda>co. if co_id co = co_id order then orderToSave order else co) (changeOrders st)
          = changeOrders st"
    by (simp add: map_idI)
  moreover have "alerts (handleSave st order) = alerts st" "view (handleSave st order) = TableView"
    by (simp_all add: handleSave_def Let_def)
  ultimately show ?thesis by (simp add: eq)
qed

theorem C7_update_witness:
  "co_id (sampleOrder 3 ''2024-03-01'') \<noteq> 0 \<and>
   changeOrders (handleSave
      (initialState\<lparr>changeOrders := [sampleOrder 1 ''2024-01-10'', sampleOrder 3 ''2024-02-15'']\<rparr>)
      (sampleOrder 3 ''2024-03-01''))
     = [sampleOrder 1 ''2024-01-10'', orderToSave (sampleOrder 3 ''2024-03-01'')]"
proof -
  let ?st = "initialState\<lparr>changeOrders := [sampleOrder 1 ''2024-01-10'', sampleOrder 3 ''2024-02-15'']\<rparr>"
  let ?w = "sampleOrder 3 ''2024-03-01''"
  have h: "co_id ?w \<noteq> 0" by (simp add: sampleOrder_def)
  from C7_update [OF h, of ?st]
  have l: "length (changeOrders (handleSave ?st ?w)) = 2"
    and n: "\<forall>i < 2. changeOrders (handleSave ?st ?w) ! i =
              (if co_id (changeOrders ?st ! i) = co_id ?w then orderToSave ?w
               else changeOrders ?st ! i)"
    by simp_all
  from n have "changeOrders (handleSave ?st ?w) ! 0 = sampleOrder 1 ''2024-01-10''"
    and "changeOrders (handleSave ?st ?w) ! 1 = orderToSave ?w"
    by (simp_all add: sampleOrder_def)
  with l have "changeOrders (handleSave ?st ?w) = [sampleOrder 1 ''2024-01-10'', orderToSave ?w]"
    by (simp add: list_eq_iff_nth_eq less_Suc_eq numeral_2_eq_2)
  with h show ?thesis by blast
qed

text \<open>
  The claim as first stated asks for a NotFound failure when no entry has the id.
  Here the collection holds only id 1 and an order with id 5 is saved: the collection
  is unchanged, no message is shown, and the view returns to the table.
\<close>

theorem C7_notfound_counterexample:
  "changeOrders (handleSave (initialState\<lparr>changeOrders := [sampleOrder 1 ''2024-01-10'']\<rparr>)
                            (sampleOrder 5 ''2024-03-01''))
     = [sampleOrder 1 ''2024-01-10''] \<and>
   alerts (handleSave (initialState\<lparr>changeOrders := [sampleOrder 1 ''2024-01-10'']\<rparr>)
                      (sampleOrder 5 ''2024-03-01'')) = [] \<and>
   view (handleSave (initialState\<lparr>changeOrders := [sampleOrder 1 ''2024-01-10'']\<rparr>)
                    (sampleOrder 5 ''2024-03-01'')) = TableView"
  by (simp add: handleSave_def Let_def orderToSave_def initialState_def sampleOrder_def)

section \<open>Import\<close>

text \<open>
  Claim C8. For every content handed to the import: if it is not valid JSON, or the
  parsed value has no settings value, or its \<open>changeOrders\<close> is not a sequence, the
  import shows its error message and leaves the collection and the settings as they
  were; if it passes this validation, the settings and the collection are both
  replaced by the imported values. A failed import changes nothing but the messages
  shown.
\<close>

theorem C8_import:
  "(\<not> passesStructuralValidation imp fileContent \<longrightarrow>
      handleFileImport imp (Content fileContent) st
        = st\<lparr>alerts := alerts st @ [''Error: The selected file is not a valid project file.'']\<rparr> \<and>
      changeOrders (handleFileImport imp (Content fileContent) st) = changeOrders st \<and>
      settings (handleFileImport imp (Content fileContent) st) = settings st \<and>
      alerts (handleFileImport imp (Content fileContent) st) =
        alerts st @ [''Error: The selected file is not a valid project file.'']) \<and>
   (passesStructuralValidation imp fileContent \<longrightarrow>
      (\<exists>members s items.
         jsonParse imp fileContent = Some (JObject members) \<and>
         map_of members ''settings'' = Some s \<and>
         map_of members ''changeOrders'' = Some (JArray items) \<and>
         settings (handleFileImport imp (Content fileContent) st) = asSettings imp (Some s) \<and>
         changeOrders (handleFileImport imp (Content fileContent) st) = map (asOrder imp) items \<and>
         alerts (handleFileImport imp (Content fileContent) st) =
           alerts st @ [''Project imported successfully!'']))"
proof (cases "passesStructuralValidation imp fileContent")
  case True
  from onload_valid [OF True, of st] obtain members s items where
    "jsonParse imp fileContent = Some (JObject members)"
    "map_of members ''settings'' = Some s"
    "map_of members ''changeOrders'' = Some (JArray items)"
    "onload imp fileContent st =
       st\<lparr>settings := asSettings imp (Some s),
          changeOrders := map (asOrder imp) items,
          currentOrder := None, view := TableView, selectedOrderIds := {},
          alerts := alerts st @ [''Project imported successfully!'']\<rparr>"
    by blast
  with True show ?thesis
    by (simp add: handleFileImport_def)
next
  case False
  then show ?thesis
    by (simp add: handleFileImport_def onload_invalid importFailed_def)
qed


theorem C8_import_witness:
  "\<not> passesStructuralValidation
       \<lparr>jsonParse = (\<lambda>s. if s = ''[]'' then Some (JArray []) else None),
        asSettings = (\<lambda>j. settings initialState), asOrder = (\<lambda>j. sampleOrder 1 [])\<rparr> ''[]'' \<and>
   changeOrders (handleFileImport
       \<lparr>jsonParse = (\<lambda>s. if s = ''[]'' then Some (JArray []) else None),
        asSettings = (\<lambda>j. settings initialState), asOrder = (\<lambda>j. sampleOrder 1 [])\<rparr>
       (Content ''[]'') (initialState\<lparr>changeOrders := [sampleOrder 1 ''2024-01-10'']\<rparr>))
     = [sampleOrder 1 ''2024-01-10''] \<and>
   passesStructuralValidation
       \<lparr>jsonParse = (\<lambda>s. Some (JObject [(''settings'', JObject []), (''changeOrders'', JArray [JNull, JNull])])),
        asSettings = (\<lambda>j. settings initialState), asOrder = (\<lambda>j. sampleOrder 1 [])\<rparr> ''{}'' \<and>
   changeOrders (handleFileImport
       \<lparr>jsonParse = (\<lambda>s. Some (JObject [(''settings'', JObject []), (''changeOrders'', JArray [JNull, JNull])])),
        asSettings = (\<lambda>j. settings initialState), asOrder = (\<lambda>j. sampleOrder 1 [])\<rparr>
       (Content ''{}'') initialState)
     = [sampleOrder 1 [], sampleOrder 1 []]"
proof -
  let ?bad = "\<lparr>jsonParse = (\<lambda>s. if s = ''[]'' then Some (JArray []) else None),
        asSettings = (\<lambda>j. settings initialState), asOrder = (\<lambda>j. sampleOrder 1 [])\<rparr>"
  let ?good = "\<lparr>jsonParse = (\<lambda>s. Some (JObject [(''settings'', JObject []), (''changeOrders'', JArray [JNull, JNull])])),
        asSettings = (\<lambda>j. settings initialState), asOrder = (\<lambda>j. sampleOrder 1 [])\<rparr>"
  have b: "\<not> passesStructuralValidation ?bad ''[]''"
    by (simp add: passesStructuralValidation_def)
  have g: "passesStructuralValidation ?good ''{}''"
    by (simp add: passesStructuralValidation_def)
  from C8_import [of ?bad "''[]''" "initialState\<lparr>changeOrders := [sampleOrder 1 ''2024-01-10'']\<rparr>"] b
  have 1: "changeOrders (handleFileImport ?bad (Content ''[]'')
             (initialState\<lparr>changeOrders := [sampleOrder 1 ''2024-01-10'']\<rparr>))
           = [sampleOrder 1 ''2024-01-10'']"
    by simp
  from C8_import [of ?good "''{}''" initialState] g
  have 2: "changeOrders (handleFileImport ?good (Content ''{}'') initialState)
           = [sampleOrder 1 [], sampleOrder 1 []]"
    by auto
  from b g 1 2 show ?thesis by blast
qed

section \<open>The selection after a mutation\<close>

text \<open>
  Claim C10. After each completed mutation of the collection (a save, whether create
  or update; a confirmed delete; a renumbering of a non-empty collection; an import
  that passes validation) the set of selected ids is empty.
\<close>

theorem C10_selection_cleared:
  "selectedOrderIds (handleSave st order) = {} \<and>
   selectedOrderIds (executeDelete st) = {} \<and>
   (changeOrders st \<noteq> [] \<longrightarrow> selectedOrderIds (handleRenumber js st) = {}) \<and>
   (passesStructuralValidation imp fileContent \<longrightarrow>
      selectedOrderIds (handleFileImport imp (Content fileContent) st) = {})"
proof -
  have "passesStructuralValidation imp fileContent \<longrightarrow>
      selectedOrderIds (handleFileImport imp (Content fileContent) st) = {}"
  proof
    assume "passesStructuralValidation imp fileContent"
    from onload_valid [OF this, of st]
    show "selectedOrderIds (handleFileImport imp (Content fileContent) st) = {}"
      by (auto simp: handleFileImport_def)
  qed
  then show ?thesis
    by (simp add: handleSave_def Let_def executeDelete_def handleRenumber_def)
qed

theorem C10_selection_cleared_witness:
  "changeOrders (initialState\<lparr>changeOrders := [sampleOrder 5 ''2024-01-10''], selectedOrderIds := {5}\<rparr>) \<noteq> [] \<and>
   selectedOrderIds (handleRenumber sampleBuiltins
      (initialState\<lparr>changeOrders := [sampleOrder 5 ''2024-01-10''], selectedOrderIds := {5}\<rparr>)) = {} \<and>
   passesStructuralValidation
       \<lparr>jsonParse = (\<lambda>s. Some (JObject [(''settings'', JObject []), (''changeOrders'', JArray [])])),
        asSettings = (\<lambda>j. settings initialState), asOrder = (\<lambda>j. sampleOrder 1 [])\<rparr> ''{}'' \<and>
   selectedOrderIds (handleFileImport
       \<lparr>jsonParse = (\<lambda>s. Some (JObject [(''settings'', JObject []), (''changeOrders'', JArray [])])),
        asSettings = (\<lambda>j. settings initialState), asOrder = (\<lambda>j. sampleOrder 1 [])\<rparr>
       (Content ''{}'')
       (initialState\<lparr>changeOrders := [sampleOrder 5 ''2024-01-10''], selectedOrderIds := {5}\<rparr>)) = {}"
proof -
  let ?st = "initialState\<lparr>changeOrders := [sampleOrder 5 ''2024-01-10''], selectedOrderIds := {5}\<rparr>"
  let ?imp = "\<lparr>jsonParse = (\<lambda>s. Some (JObject [(''settings'', JObject []), (''changeOrders'', JArray [])])),
        asSettings = (\<lambda>j. settings initialState), asOrder = (\<lambda>j. sampleOrder 1 [])\<rparr>"
  have n: "changeOrders ?st \<noteq> []" by simp
  have g: "passesStructuralValidation ?imp ''{}''"
    by (simp add: passesStructuralValidation_def)
  from C10_selection_cleared [of ?st "sampleOrder 0 []" sampleBuiltins ?imp "''{}''"] n g
  have "selectedOrderIds (handleRenumber sampleBuiltins ?st) = {}"
    and "selectedOrderIds (handleFileImport ?imp (Content ''{}'') ?st) = {}"
    by blast+
  with n g show ?thesis by blast
qed

section \<open>Renumbering\<close>

text \<open>
  Claim C4, as amended. On every non-empty collection, renumbering rearranges the
  entries and stores the entry at position \<open>i\<close> (from 0) with id \<open>i + 1\<close>, so the
  collection keeps its entries and its length and the ids are exactly \<open>1..N\<close>. When
  every request date of the collection is a valid date, the rearrangement is the
  ascending order of the request dates, entries with the same date keeping their
  relative order, and renumbering a second time gives the same collection.
\<close>

theorem C4_renumber:
  assumes "changeOrders st \<noteq> []"
  shows "mset (sortedOrders js (changeOrders st)) = mset (changeOrders st) \<and>
         length (changeOrders (handleRenumber js st)) = length (changeOrders st) \<and>
         (\<forall>i < length (changeOrders st).
            changeOrders (handleRenumber js st) ! i
              = (sortedOrders js (changeOrders st) ! i)\<lparr>co_id := int i + 1\<rparr>) \<and>
         map co_id (changeOrders (handleRenumber js st))
           = map int [1 ..< Suc (length (changeOrders st))] \<and>
         ((\<forall>co \<in> set (changeOrders st). getTime js (dateRequested co) \<noteq> None) \<longrightarrow>
            sorted (map (timeOf js) (sortedOrders js (changeOrders st))) \<and>
            (\<forall>t. filter (\<lambda>co. timeOf js co = t) (sortedOrders js (changeOrders st))
                  = filter (\<lambda>co. timeOf js co = t) (changeOrders st)) \<and>
            changeOrders (handleRenumber js (handleRenumber js st))
              = changeOrders (handleRenumber js st))"
proof -
  let ?os = "changeOrders st"
  have r: "changeOrders (handleRenumber js st) = renumberedOrders js ?os"
    using assms by (simp add: handleRenumber_def)
  have ne: "renumberedOrders js ?os \<noteq> []"
    using assms length_renumberedOrders [of js ?os] by auto
  have rr: "changeOrders (handleRenumber js (handleRenumber js st))
              = renumberedOrders js (renumberedOrders js ?os)"
    using assms ne by (simp add: handleRenumber_def)
  have c1: "mset (sortedOrders js ?os) = mset ?os"
    by (simp add: sortedOrders_def mset_js_sort)
  have c2: "length (changeOrders (handleRenumber js st)) = length ?os"
    unfolding r by (rule length_renumberedOrders)
  have c3: "\<forall>i < length ?os. changeOrders (handleRenumber js st) ! i
              = (sortedOrders js ?os ! i)\<lparr>co_id := int i + 1\<rparr>"
    unfolding r using nth_renumberedOrders [of _ ?os js] by blast
  have c4: "map co_id (changeOrders (handleRenumber js st))
           = map int [1 ..< Suc (length ?os)]"
    unfolding r by (rule ids_renumberedOrders)
  have c5: "(\<forall>co \<in> set ?os. getTime js (dateRequested co) \<noteq> None) \<longrightarrow>
            sorted (map (timeOf js) (sortedOrders js ?os)) \<and>
            (\<forall>t. filter (\<lambda>co. timeOf js co = t) (sortedOrders js ?os)
                  = filter (\<lambda>co. timeOf js co = t) ?os) \<and>
            changeOrders (handleRenumber js (handleRenumber js st))
              = changeOrders (handleRenumber js st)"
  proof
    assume v: "\<forall>co \<in> set ?os. getTime js (dateRequested co) \<noteq> None"
    have s: "sortedOrders js ?os = sort_key (timeOf js) ?os"
      using v by (rule sortedOrders_key)
    have d1: "sorted (map (timeOf js) (sortedOrders js ?os))" by (simp add: s)
    have d2: "\<forall>t. filter (\<lambda>co. timeOf js co = t) (sortedOrders js ?os)
               = filter (\<lambda>co. timeOf js co = t) ?os"
      unfolding s by (intro allI sort_key_stable)
    have d3: "changeOrders (handleRenumber js (handleRenumber js st))
           = changeOrders (handleRenumber js st)"
      unfolding r rr using v by (rule renumberedOrders_idem)
    from d1 d2 d3
    show "sorted (map (timeOf js) (sortedOrders js ?os)) \<and>
            (\<forall>t. filter (\<lambda>co. timeOf js co = t) (sortedOrders js ?os)
                  = filter (\<lambda>co. timeOf js co = t) ?os) \<and>
            changeOrders (handleRenumber js (handleRenumber js st))
              = changeOrders (handleRenumber js st)"
      by blast
  qed
  from c1 c2 c3 c4 c5 show ?thesis by blast
qed

theorem C4_renumber_witness:
  "changeOrders (initialState\<lparr>changeOrders :=
      [sampleOrder 5 ''2024-03-01'', sampleOrder 2 ''2024-01-10'', sampleOrder 9 ''2024-02-15'']\<rparr>) \<noteq> [] \<and>
   map co_id (changeOrders (handleRenumber sampleBuiltins (initialState\<lparr>changeOrders :=
      [sampleOrder 5 ''2024-03-01'', sampleOrder 2 ''2024-01-10'', sampleOrder 9 ''2024-02-15'']\<rparr>)))
     = [1, 2, 3] \<and>
   map dateRequested (changeOrders (handleRenumber sampleBuiltins (initialState\<lparr>changeOrders :=
      [sampleOrder 5 ''2024-03-01'', sampleOrder 2 ''2024-01-10'', sampleOrder 9 ''2024-02-15'']\<rparr>)))
     = [''2024-01-10'', ''2024-02-15'', ''2024-03-01''] \<and>
   changeOrders (handleRenumber sampleBuiltins (handleRenumber sampleBuiltins
      (initialState\<lparr>changeOrders :=
      [sampleOrder 5 ''2024-03-01'', sampleOrder 2 ''2024-01-10'', sampleOrder 9 ''2024-02-15'']\<rparr>)))
     = changeOrders (handleRenumber sampleBuiltins (initialState\<lparr>changeOrders :=
      [sampleOrder 5 ''2024-03-01'', sampleOrder 2 ''2024-01-10'', sampleOrder 9 ''2024-02-15'']\<rparr>))"
proof -
  let ?st = "initialState\<lparr>changeOrders :=
      [sampleOrder 5 ''2024-03-01'', sampleOrder 2 ''2024-01-10'', sampleOrder 9 ''2024-02-15'']\<rparr>"
  have n: "changeOrders ?st \<noteq> []" by simp
  have v: "\<forall>co \<in> set (changeOrders ?st). getTime sampleBuiltins (dateRequested co) \<noteq> None"
    by (simp add: sampleBuiltins_def sampleOrder_def)
  note th = C4_renumber [OF n, of sampleBuiltins]
  from th have "map co_id (changeOrders (handleRenumber sampleBuiltins ?st))
          = map int [1 ..< Suc (length (changeOrders ?st))]"
    by blast
  then have ids: "map co_id (changeOrders (handleRenumber sampleBuiltins ?st)) = [1, 2, 3]"
    by (simp add: upt_rec)
  from th v have idem: "changeOrders (handleRenumber sampleBuiltins (handleRenumber sampleBuiltins ?st))
      = changeOrders (handleRenumber sampleBuiltins ?st)"
    by blast
  have dates: "map dateRequested (changeOrders (handleRenumber sampleBuiltins ?st))
          = [''2024-01-10'', ''2024-02-15'', ''2024-03-01'']"
    by (simp add: handleRenumber_def renumberedOrders_def sortedOrders_def js_sort_def
        byDateRequested_def sortCompare_def sampleBuiltins_def sampleOrder_def enumerate_eq_zip
        upt_rec)
  from n ids dates idem show ?thesis by blast
qed

text \<open>
  The claim as first stated covers every non-empty collection. The form stores the
  request date as typed and a submission checks the three required texts only, so an
  order can hold the empty text as its date; no time value belongs to it. Here the
  collection holds a date in March, an empty date and a date in January, in this
  order: every comparison with the empty date is \<open>NaN\<close>, no entry moves, and the
  order of March is stored with id 1, before the order of January with id 3.
\<close>

theorem C4_blank_date_counterexample:
  "map dateRequested (changeOrders (submitForm sampleBuiltins initialState blankDateForm)) = [[]] \<and>
   getTime sampleBuiltins [] = None \<and>
   getTime sampleBuiltins ''2024-03-01'' = Some 1709251200000 \<and>
   getTime sampleBuiltins ''2024-01-10'' = Some 1704844800000 \<and>
   map (\<lambda>co. (co_id co, dateRequested co))
     (changeOrders (handleRenumber sampleBuiltins (initialState\<lparr>changeOrders :=
        [sampleOrder 5 ''2024-03-01'', sampleOrder 2 [], sampleOrder 9 ''2024-01-10'']\<rparr>)))
     = [(1, ''2024-03-01''), (2, []), (3, ''2024-01-10'')]"
proof -
  have a: "map dateRequested (changeOrders (submitForm sampleBuiltins initialState blankDateForm)) = [[]]"
    by (simp add: blankDateForm_def submitForm_def handleSubmit_def handleChange_def
        formLoad_def emptyFormState_def newInternalState_def newThirdPartyState_def
        configuredInternalApprovers_def APPROVER_ROLES_def finalApprovals_def Let_def
        initialState_def sampleBuiltins_def asciiTrim_def asciiWhiteSpace_def
        handleSave_def orderToSave_def newStatus_def newCoId_def plusOne_def js_sort_def)
  have b: "getTime sampleBuiltins [] = None \<and>
   getTime sampleBuiltins ''2024-03-01'' = Some 1709251200000 \<and>
   getTime sampleBuiltins ''2024-01-10'' = Some 1704844800000"
    by (simp add: sampleBuiltins_def)
  have c: "map (\<lambda>co. (co_id co, dateRequested co))
     (changeOrders (handleRenumber sampleBuiltins (initialState\<lparr>changeOrders :=
        [sampleOrder 5 ''2024-03-01'', sampleOrder 2 [], sampleOrder 9 ''2024-01-10'']\<rparr>)))
     = [(1, ''2024-03-01''), (2, []), (3, ''2024-01-10'')]"
    by (simp add: handleRenumber_def renumberedOrders_def sortedOrders_def js_sort_def
        byDateRequested_def sortCompare_def sampleBuiltins_def sampleOrder_def enumerate_eq_zip
        upt_rec initialState_def)
  from a b c show ?thesis by blast
qed

section \<open>Filter and total\<close>

text \<open>
  Claim C6. With the default criteria (all texts empty, status \<open>All\<close>) the filter
  returns the whole collection in its order; an empty text is no number for either
  parser, which is how the language reads it. For every criteria the total shown is
  the sum of the total cost (equipment, installation and other) of the entries the
  filter returns.
\<close>

theorem C6_filter_total:
  "(parseFloat js [] = None \<and> parseInt10 js [] = None \<longrightarrow>
      filteredChangeOrders js defaultFilters orders = orders) \<and>
   totalCostImpact js filters orders
     = sum_list (map totalCost (filteredChangeOrders js filters orders))"
  by (simp add: filteredChangeOrders_def matches_default totalCostImpact_def foldl_total)


theorem C6_filter_total_witness:
  "parseFloat sampleBuiltins [] = None \<and> parseInt10 sampleBuiltins [] = None \<and>
   filteredChangeOrders sampleBuiltins defaultFilters
     [(sampleOrder 1 ''2024-01-10'')\<lparr>costImpactEquipment := 500\<rparr>,
      (sampleOrder 2 ''2024-01-10'')\<lparr>costImpactInstallation := 1200\<rparr>,
      (sampleOrder 3 ''2024-01-10'')\<lparr>costImpactEquipment := 4000, costImpactOther := 1000\<rparr>,
      (sampleOrder 4 ''2024-01-10'')\<lparr>costImpactEquipment := 7000\<rparr>]
   = [(sampleOrder 1 ''2024-01-10'')\<lparr>costImpactEquipment := 500\<rparr>,
      (sampleOrder 2 ''2024-01-10'')\<lparr>costImpactInstallation := 1200\<rparr>,
      (sampleOrder 3 ''2024-01-10'')\<lparr>costImpactEquipment := 4000, costImpactOther := 1000\<rparr>,
      (sampleOrder 4 ''2024-01-10'')\<lparr>costImpactEquipment := 7000\<rparr>] \<and>
   map co_id (filteredChangeOrders sampleBuiltins (defaultFilters\<lparr>costMin := ''1000'', costMax := ''5000''\<rparr>)
     [(sampleOrder 1 ''2024-01-10'')\<lparr>costImpactEquipment := 500\<rparr>,
      (sampleOrder 2 ''2024-01-10'')\<lparr>costImpactInstallation := 1200\<rparr>,
      (sampleOrder 3 ''2024-01-10'')\<lparr>costImpactEquipment := 4000, costImpactOther := 1000\<rparr>,
      (sampleOrder 4 ''2024-01-10'')\<lparr>costImpactEquipment := 7000\<rparr>]) = [2, 3] \<and>
   totalCostImpact sampleBuiltins (defaultFilters\<lparr>costMin := ''1000'', costMax := ''5000''\<rparr>)
     [(sampleOrder 1 ''2024-01-10'')\<lparr>costImpactEquipment := 500\<rparr>,
      (sampleOrder 2 ''2024-01-10'')\<lparr>costImpactInstallation := 1200\<rparr>,
      (sampleOrder 3 ''2024-01-10'')\<lparr>costImpactEquipment := 4000, costImpactOther := 1000\<rparr>,
      (sampleOrder 4 ''2024-01-10'')\<lparr>costImpactEquipment := 7000\<rparr>] = 6200"
proof -
  let ?os = "[(sampleOrder 1 ''2024-01-10'')\<lparr>costImpactEquipment := 500\<rparr>,
      (sampleOrder 2 ''2024-01-10'')\<lparr>costImpactInstallation := 1200\<rparr>,
      (sampleOrder 3 ''2024-01-10'')\<lparr>costImpactEquipment := 4000, costImpactOther := 1000\<rparr>,
      (sampleOrder 4 ''2024-01-10'')\<lparr>costImpactEquipment := 7000\<rparr>]"
  let ?f = "defaultFilters\<lparr>costMin := ''1000'', costMax := ''5000''\<rparr>"
  have p: "parseFloat sampleBuiltins [] = None \<and> parseInt10 sampleBuiltins [] = None"
    by (simp add: sampleBuiltins_def)
  have sel: "filteredChangeOrders sampleBuiltins ?f ?os = [?os ! 1, ?os ! 2]"
    by (simp add: filteredChangeOrders_def matchesFilters_def defaultFilters_def
        sampleBuiltins_def sampleOrder_def totalCost_def)
  from C6_filter_total [of sampleBuiltins ?os ?f] p
  have all: "filteredChangeOrders sampleBuiltins defaultFilters ?os = ?os"
    and tot: "totalCostImpact sampleBuiltins ?f ?os
                = sum_list (map totalCost (filteredChangeOrders sampleBuiltins ?f ?os))"
    by blast+
  from tot have t: "totalCostImpact sampleBuiltins ?f ?os = 6200"
    unfolding sel by (simp add: totalCost_def sampleOrder_def)
  have ids: "map co_id (filteredChangeOrders sampleBuiltins ?f ?os) = [2, 3]"
    unfolding sel by (simp add: sampleOrder_def)
  from p all ids t show ?thesis by blast
qed

section \<open>The form at commit\<close>

text \<open>
  Claim C5. When a form reached from a load by the form's handlers is submitted with
  its three required texts filled in, the order handed to \<open>onSave\<close> has as approvals:
  first one entry for each internal row that is included, in the order of the rows,
  then one entry for each third-party row with a non-empty name, in the order of the
  rows; no other row contributes, and no message is raised. The internal rows stand in
  the order of the roles. An internal entry has the configured name of its role, the
  status of the row and its date (no date when the text is empty); a third-party entry
  is its row, with an empty date text as no date.
\<close>

theorem C5_collapse:
  assumes "formReachable js cfg fs"
    and "trim js (title (formData fs)) \<noteq> []" and "trim js (description (formData fs)) \<noteq> []"
    and "trim js (reason (formData fs)) \<noteq> []"
  shows "(\<exists>order. snd (handleSubmit js cfg fs) = Inr order \<and>
            approvals order =
              map (internalApprovalOf cfg) (filter included (internalApprovers fs))
              @ map thirdPartyApprovalOf (filter (\<lambda>app. name app \<noteq> []) (thirdPartyApprovers fs))) \<and>
         map role (internalApprovers fs) = filter (\<lambda>r. r \<in> set (map role (internalApprovers fs))) APPROVER_ROLES \<and>
         (\<forall>app \<in> set (internalApprovers fs).
            cfg (role app) = Some (name (internalApprovalOf cfg app)) \<and>
            approvalStatus (internalApprovalOf cfg app) = ctlStatus app \<and>
            approvalDate (internalApprovalOf cfg app)
              = (if ctlApprovalDate app = [] then None else Some (ctlApprovalDate app))) \<and>
         (\<forall>app \<in> set (thirdPartyApprovers fs).
            name (thirdPartyApprovalOf app) = name app \<and>
            approvalStatus (thirdPartyApprovalOf app) = approvalStatus app \<and>
            approvalDate (thirdPartyApprovalOf app)
              = (if approvalDate app = Some [] then None else approvalDate app))"
proof -
  have roles: "map role (internalApprovers fs) = configuredInternalApprovers js cfg"
    using assms(1) by (rule roles_formReachable)
  have a: "\<exists>order. snd (handleSubmit js cfg fs) = Inr order \<and>
            approvals order =
              map (internalApprovalOf cfg) (filter included (internalApprovers fs))
              @ map thirdPartyApprovalOf (filter (\<lambda>app. name app \<noteq> []) (thirdPartyApprovers fs))"
    using handleSubmit_commits [OF assms(2-4), of cfg] by (simp add: finalApprovals_def)
  have b: "map role (internalApprovers fs) = filter (\<lambda>r. r \<in> set (map role (internalApprovers fs))) APPROVER_ROLES"
    unfolding roles by (simp add: configuredInternalApprovers_def cong: filter_cong)
  have c: "\<forall>app \<in> set (internalApprovers fs).
            cfg (role app) = Some (name (internalApprovalOf cfg app)) \<and>
            approvalStatus (internalApprovalOf cfg app) = ctlStatus app \<and>
            approvalDate (internalApprovalOf cfg app)
              = (if ctlApprovalDate app = [] then None else Some (ctlApprovalDate app))"
  proof
    fix app assume "app \<in> set (internalApprovers fs)"
    then have "role app \<in> set (configuredInternalApprovers js cfg)"
      unfolding roles [symmetric] by simp
    then obtain n where "cfg (role app) = Some n" using configured_has_name by blast
    then show "cfg (role app) = Some (name (internalApprovalOf cfg app)) \<and>
            approvalStatus (internalApprovalOf cfg app) = ctlStatus app \<and>
            approvalDate (internalApprovalOf cfg app)
              = (if ctlApprovalDate app = [] then None else Some (ctlApprovalDate app))"
      by (simp add: internalApprovalOf_def orNull_def)
  qed
  have d: "\<forall>app \<in> set (thirdPartyApprovers fs).
            name (thirdPartyApprovalOf app) = name app \<and>
            approvalStatus (thirdPartyApprovalOf app) = approvalStatus app \<and>
            approvalDate (thirdPartyApprovalOf app)
              = (if approvalDate app = Some [] then None else approvalDate app)"
    by (auto simp: thirdPartyApprovalOf_def orNull_def split: option.splits)
  from a b c d show ?thesis by blast
qed


theorem C5_collapse_witness:
  "\<exists>order. snd (handleSubmit sampleBuiltins sampleConfig reviewedForm) = Inr order \<and>
     approvals order =
       [\<lparr>name = ''Avery Lee'', approvalStatus = Approved, approvalDate = None\<rparr>,
        \<lparr>name = ''Regulator'', approvalStatus = Pending, approvalDate = None\<rparr>]"
proof -
  have r: "formReachable sampleBuiltins sampleConfig reviewedForm"
    unfolding reviewedForm_def
    by (intro formReachable.thirdPartyChanged formReachable.thirdPartyAdded
        formReachable.internalChanged formReachable.changed formReachable.loaded)
  have fd: "formData reviewedForm =
      (emptyFormState ''2024-03-01'')\<lparr>title := ''Reroute main'',
         description := ''Reroute the gas main'', reason := ''Conflict with storm drain''\<rparr>"
    by (simp add: reviewedForm_def handleThirdPartyApproverChange_def addThirdPartyApprover_def
        handleInternalApproverChange_def handleChange_def formLoad_def Let_def)
  have t: "trim sampleBuiltins (title (formData reviewedForm)) \<noteq> []"
    and d: "trim sampleBuiltins (description (formData reviewedForm)) \<noteq> []"
    and e: "trim sampleBuiltins (reason (formData reviewedForm)) \<noteq> []"
    unfolding fd by (simp_all add: sampleBuiltins_def asciiTrim_def asciiWhiteSpace_def)
  have cia: "configuredInternalApprovers sampleBuiltins sampleConfig = [''Manager of Gas Engineering'']"
    by (simp add: configuredInternalApprovers_def APPROVER_ROLES_def sampleConfig_def
        sampleBuiltins_def asciiTrim_def asciiWhiteSpace_def)
  have ia: "internalApprovers reviewedForm =
      [\<lparr>role = ''Manager of Gas Engineering'', included = True, ctlStatus = Approved,
        ctlApprovalDate = []\<rparr>]"
    by (simp add: reviewedForm_def handleThirdPartyApproverChange_def addThirdPartyApprover_def
        handleInternalApproverChange_def handleChange_def formLoad_def Let_def
        newInternalState_def cia)
  have tp: "thirdPartyApprovers reviewedForm =
      [\<lparr>name = ''Regulator'', approvalStatus = Pending, approvalDate = Some []\<rparr>,
       \<lparr>name = [], approvalStatus = Pending, approvalDate = Some []\<rparr>]"
    by (simp add: reviewedForm_def handleThirdPartyApproverChange_def addThirdPartyApprover_def
        handleInternalApproverChange_def handleChange_def formLoad_def Let_def
        newThirdPartyState_def)
  note C5_collapse [OF r t d e, THEN conjunct1]
  then show ?thesis
    unfolding ia tp
    by (simp add: internalApprovalOf_def thirdPartyApprovalOf_def orNull_def sampleConfig_def)
qed

section \<open>Numeric fields at commit\<close>

text \<open>
  Claim C9, as amended. In the form of \<open>src/index.tsx\<close> a submission is blocked
  exactly when one of the three required texts is blank; otherwise the order of the
  form is handed to \<open>onSave\<close>, whatever its numeric fields and whatever errors are
  displayed. Typing a number into a numeric field stores the number in the form; the
  error message of the field is set when the number is negative and cleared when it
  is not. Typing a text that is no number stores 0 and clears the message of the
  field. None of this changes whether the submission is blocked.

  In the form of \<open>src/unnamed/part_000\<close> a submission is blocked exactly when one of
  the three required texts is blank or some error is displayed. Typing into a numeric
  field stores the same value; the error message of the field is set when the text is
  empty or the number negative, and cleared otherwise, so a submission right after
  such an input is blocked. A form just loaded displays no error: an order loaded with
  a negative number in it is handed to \<open>onSave\<close> when its required texts are filled
  in.
\<close>

theorem C9_numeric_not_blocking:
  "((\<exists>msg. snd (handleSubmit js cfg fs) = Inl msg) \<longleftrightarrow>
      (trim js (title (formData fs)) = [] \<or> trim js (description (formData fs)) = []
       \<or> trim js (reason (formData fs)) = [])) \<and>
   ((\<exists>order. snd (handleSubmit js cfg fs) = Inr order) \<longleftrightarrow>
      snd (handleSubmit js cfg fs) = Inr ((formData fs)\<lparr>approvals := finalApprovals cfg fs\<rparr>)) \<and>
   (\<forall>x. parseFloat js v = Some x \<longrightarrow>
      getNumeric f (formData (handleChange js (NumberInput f v) fs)) = x \<and>
      errors (handleChange js (NumberInput f v) fs) (numericName f)
        = (if x < 0 then Some ''Must be a non-negative number.'' else None)) \<and>
   (parseFloat js v = None \<longrightarrow>
      getNumeric f (formData (handleChange js (NumberInput f v) fs)) = 0 \<and>
      errors (handleChange js (NumberInput f v) fs) (numericName f) = None) \<and>
   (snd (handleSubmit js cfg (handleChange js (NumberInput f v) fs)) =
      (case snd (handleSubmit js cfg fs) of
         Inl msg \<Rightarrow> Inl msg
       | Inr order \<Rightarrow> Inr (setNumeric f (processedValue js v) order))) \<and>
   ((\<exists>msg. snd (handleSubmit_part000 js cfg fs) = Inl msg) \<longleftrightarrow>
      (trim js (title (formData fs)) = [] \<or> trim js (description (formData fs)) = []
       \<or> trim js (reason (formData fs)) = [] \<or> dom (errors fs) \<noteq> {})) \<and>
   ((\<exists>order. snd (handleSubmit_part000 js cfg fs) = Inr order) \<longleftrightarrow>
      snd (handleSubmit_part000 js cfg fs)
        = Inr ((formData fs)\<lparr>approvals := finalApprovals cfg fs\<rparr>)) \<and>
   getNumeric f (formData (handleChange_part000 js (NumberInput f v) fs)) = processedValue js v \<and>
   errors (handleChange_part000 js (NumberInput f v) fs) (numericName f)
     = (if v = [] \<or> (\<exists>x. parseFloat js v = Some x \<and> x < 0)
        then Some ''Must be a non-negative number.'' else None) \<and>
   (v = [] \<or> (\<exists>x. parseFloat js v = Some x \<and> x < 0) \<longrightarrow>
      snd (handleSubmit_part000 js cfg (handleChange_part000 js (NumberInput f v) fs))
        = Inl ''Please fix the errors before saving.'') \<and>
   (trim js (title ord) \<noteq> [] \<and> trim js (description ord) \<noteq> [] \<and> trim js (reason ord) \<noteq> [] \<longrightarrow>
      snd (handleSubmit_part000 js cfg (formLoad js today (Some ord) cfg))
        = Inr (ord\<lparr>approvals := finalApprovals cfg (formLoad js today (Some ord) cfg)\<rparr>))"
proof -
  have get_set: "getNumeric f (setNumeric f x co) = x" for x co
    by (cases f) simp_all
  have texts: "title (setNumeric f x co) = title co" "description (setNumeric f x co) = description co"
    "reason (setNumeric f x co) = reason co" for x co
    by (cases f; simp)+
  have appr: "(setNumeric f x co)\<lparr>approvals := a\<rparr> = setNumeric f x (co\<lparr>approvals := a\<rparr>)" for x co a
    by (cases f) simp_all
  have fin: "finalApprovals cfg (handleChange js (NumberInput f v) fs) = finalApprovals cfg fs"
    by (simp add: finalApprovals_def handleChange_def)
  have fd: "formData (handleChange js (NumberInput f v) fs)
              = setNumeric f (processedValue js v) (formData fs)"
    by (simp add: handleChange_def)
  have 1: "(\<exists>msg. snd (handleSubmit js cfg fs) = Inl msg) \<longleftrightarrow>
      (trim js (title (formData fs)) = [] \<or> trim js (description (formData fs)) = []
       \<or> trim js (reason (formData fs)) = [])"
    by (auto simp: handleSubmit_def Let_def)
  have 2: "(\<exists>order. snd (handleSubmit js cfg fs) = Inr order) \<longleftrightarrow>
      snd (handleSubmit js cfg fs) = Inr ((formData fs)\<lparr>approvals := finalApprovals cfg fs\<rparr>)"
    by (auto simp: handleSubmit_def Let_def)
  have 3: "\<forall>x. parseFloat js v = Some x \<longrightarrow>
      getNumeric f (formData (handleChange js (NumberInput f v) fs)) = x \<and>
      errors (handleChange js (NumberInput f v) fs) (numericName f)
        = (if x < 0 then Some ''Must be a non-negative number.'' else None)"
    by (auto simp: fd get_set processedValue_def handleChange_def)
  have 4: "parseFloat js v = None \<longrightarrow>
      getNumeric f (formData (handleChange js (NumberInput f v) fs)) = 0 \<and>
      errors (handleChange js (NumberInput f v) fs) (numericName f) = None"
    by (auto simp: fd get_set processedValue_def handleChange_def)
  have 5: "snd (handleSubmit js cfg (handleChange js (NumberInput f v) fs)) =
      (case snd (handleSubmit js cfg fs) of
         Inl msg \<Rightarrow> Inl msg
       | Inr order \<Rightarrow> Inr (setNumeric f (processedValue js v) order))"
    by (simp add: handleSubmit_def [of js cfg] Let_def fd fin texts appr)
  have 6: "(\<exists>msg. snd (handleSubmit_part000 js cfg fs) = Inl msg) \<longleftrightarrow>
      (trim js (title (formData fs)) = [] \<or> trim js (description (formData fs)) = []
       \<or> trim js (reason (formData fs)) = [] \<or> dom (errors fs) \<noteq> {})"
    by (simp add: handleSubmit_part000_def Let_def blocked_part000 del: dom_eq_empty_conv)
  have 7: "(\<exists>order. snd (handleSubmit_part000 js cfg fs) = Inr order) \<longleftrightarrow>
      snd (handleSubmit_part000 js cfg fs)
        = Inr ((formData fs)\<lparr>approvals := finalApprovals cfg fs\<rparr>)"
    by (auto simp: handleSubmit_part000_def Let_def)
  have 8: "getNumeric f (formData (handleChange_part000 js (NumberInput f v) fs)) = processedValue js v"
    by (simp add: handleChange_part000_def get_set)
  have 9: "errors (handleChange_part000 js (NumberInput f v) fs) (numericName f)
     = (if v = [] \<or> (\<exists>x. parseFloat js v = Some x \<and> x < 0)
        then Some ''Must be a non-negative number.'' else None)"
    by (auto simp: handleChange_part000_def split: option.splits)
  have 10: "v = [] \<or> (\<exists>x. parseFloat js v = Some x \<and> x < 0) \<longrightarrow>
      snd (handleSubmit_part000 js cfg (handleChange_part000 js (NumberInput f v) fs))
        = Inl ''Please fix the errors before saving.''"
  proof
    assume "v = [] \<or> (\<exists>x. parseFloat js v = Some x \<and> x < 0)"
    with 9 have "numericName f \<in> dom (errors (handleChange_part000 js (NumberInput f v) fs))"
      by (simp add: domIff)
    then have "dom (currentErrors js (formData (handleChange_part000 js (NumberInput f v) fs))
                 (errors (handleChange_part000 js (NumberInput f v) fs))) \<noteq> {}"
      unfolding dom_currentErrors by blast
    then show "snd (handleSubmit_part000 js cfg (handleChange_part000 js (NumberInput f v) fs))
        = Inl ''Please fix the errors before saving.''"
      by (simp add: handleSubmit_part000_def Let_def)
  qed
  have 11: "trim js (title ord) \<noteq> [] \<and> trim js (description ord) \<noteq> [] \<and> trim js (reason ord) \<noteq> [] \<longrightarrow>
      snd (handleSubmit_part000 js cfg (formLoad js today (Some ord) cfg))
        = Inr (ord\<lparr>approvals := finalApprovals cfg (formLoad js today (Some ord) cfg)\<rparr>)"
  proof
    assume nb: "trim js (title ord) \<noteq> [] \<and> trim js (description ord) \<noteq> [] \<and> trim js (reason ord) \<noteq> []"
    have fdl: "formData (formLoad js today (Some ord) cfg) = ord"
      and el: "errors (formLoad js today (Some ord) cfg) = Map.empty"
      by (simp_all add: formLoad_def Let_def)
    have "dom (currentErrors js (formData (formLoad js today (Some ord) cfg))
                 (errors (formLoad js today (Some ord) cfg))) = {}"
      unfolding dom_currentErrors fdl el using nb by simp
    then show "snd (handleSubmit_part000 js cfg (formLoad js today (Some ord) cfg))
        = Inr (ord\<lparr>approvals := finalApprovals cfg (formLoad js today (Some ord) cfg)\<rparr>)"
      by (simp add: handleSubmit_part000_def Let_def fdl)
  qed
  from 1 2 3 4 5 6 7 8 9 10 11 show ?thesis by blast
qed

theorem C9_numeric_not_blocking_witness:
  "parseFloat sampleBuiltins ''-5'' = Some (- 5) \<and>
   costImpactEquipment (formData negativeCostForm) = - 5 \<and>
   errors negativeCostForm ''costImpactEquipment'' = Some ''Must be a non-negative number.'' \<and>
   snd (handleSubmit_part000 sampleBuiltins Map.empty
      (handleChange_part000 sampleBuiltins (NumberInput CostImpactEquipment ''-5'')
        (handleChange sampleBuiltins (TextInput Reason ''Conflict with storm drain'')
         (handleChange sampleBuiltins (TextInput Description ''Reroute the gas main'')
           (handleChange sampleBuiltins (TextInput Title ''Reroute main'')
             (formLoad sampleBuiltins ''2024-03-01'' None Map.empty))))))
     = Inl ''Please fix the errors before saving.''"
proof -
  let ?fs0 = "handleChange sampleBuiltins (TextInput Reason ''Conflict with storm drain'')
         (handleChange sampleBuiltins (TextInput Description ''Reroute the gas main'')
           (handleChange sampleBuiltins (TextInput Title ''Reroute main'')
             (formLoad sampleBuiltins ''2024-03-01'' None Map.empty)))"
  have p: "parseFloat sampleBuiltins ''-5'' = Some (- 5)"
    by (simp add: sampleBuiltins_def)
  have q: "''-5'' = [] \<or> (\<exists>x. parseFloat sampleBuiltins ''-5'' = Some x \<and> x < 0)"
    by (simp add: sampleBuiltins_def)
  note th = C9_numeric_not_blocking [where cfg = Map.empty and fs = ?fs0 and js = sampleBuiltins
      and v = "''-5''" and f = CostImpactEquipment]
  note a = th [THEN conjunct2, THEN conjunct2, THEN conjunct1, rule_format, OF p]
  from th q have b: "snd (handleSubmit_part000 sampleBuiltins Map.empty
      (handleChange_part000 sampleBuiltins (NumberInput CostImpactEquipment ''-5'') ?fs0))
     = Inl ''Please fix the errors before saving.''"
    by blast
  from a b show ?thesis
    using p by (simp add: negativeCostForm_def)
qed

text \<open>
  The claim as first stated has every save with a negative numeric field blocked. In
  the form of \<open>src/index.tsx\<close> a new form is filled in, \<open>-5\<close> is typed as equipment
  cost and the form is submitted: the field shows its message, and the order is stored
  with the cost \<open>-5\<close> under id 1, with no message raised. In the form of
  \<open>src/unnamed/part_000\<close> an order that holds the cost \<open>-5\<close> is loaded for editing
  and submitted as it is: it is handed to \<open>onSave\<close> with the cost \<open>-5\<close>.
\<close>

theorem C9_negative_saved_counterexample:
  "errors negativeCostForm ''costImpactEquipment'' = Some ''Must be a non-negative number.'' \<and>
   map costImpactEquipment (changeOrders (submitForm sampleBuiltins initialState negativeCostForm)) = [- 5] \<and>
   map co_id (changeOrders (submitForm sampleBuiltins initialState negativeCostForm)) = [1] \<and>
   alerts (submitForm sampleBuiltins initialState negativeCostForm) = [] \<and>
   snd (handleSubmit_part000 sampleBuiltins Map.empty
          (formLoad sampleBuiltins ''2024-03-01''
             (Some ((sampleOrder 3 ''2024-01-10'')\<lparr>costImpactEquipment := - 5\<rparr>)) Map.empty))
     = Inr ((sampleOrder 3 ''2024-01-10'')\<lparr>costImpactEquipment := - 5\<rparr>)"
proof -
  have a: "errors negativeCostForm ''costImpactEquipment'' = Some ''Must be a non-negative number.'' \<and>
   map costImpactEquipment (changeOrders (submitForm sampleBuiltins initialState negativeCostForm)) = [- 5] \<and>
   map co_id (changeOrders (submitForm sampleBuiltins initialState negativeCostForm)) = [1] \<and>
   alerts (submitForm sampleBuiltins initialState negativeCostForm) = []"
    by (simp add: negativeCostForm_def submitForm_def handleSubmit_def handleChange_def
      formLoad_def emptyFormState_def newInternalState_def newThirdPartyState_def
      configuredInternalApprovers_def APPROVER_ROLES_def finalApprovals_def Let_def
      initialState_def sampleBuiltins_def asciiTrim_def asciiWhiteSpace_def processedValue_def
      handleSave_def orderToSave_def newStatus_def newCoId_def plusOne_def js_sort_def)
  have b: "snd (handleSubmit_part000 sampleBuiltins Map.empty
          (formLoad sampleBuiltins ''2024-03-01''
             (Some ((sampleOrder 3 ''2024-01-10'')\<lparr>costImpactEquipment := - 5\<rparr>)) Map.empty))
     = Inr ((sampleOrder 3 ''2024-01-10'')\<lparr>costImpactEquipment := - 5\<rparr>)"
    by (simp add: handleSubmit_part000_def currentErrors_def formLoad_def newInternalState_def
        newThirdPartyState_def configuredInternalApprovers_def APPROVER_ROLES_def
        finalApprovals_def Let_def sampleBuiltins_def asciiTrim_def asciiWhiteSpace_def
        sampleOrder_def)
  from a b show ?thesis by blast
qed

end
